theory Spec2Isabelle
  imports Complex_Main
begin

section \<open>JavaScript values\<close>

text \<open>
  The three scripts compute with JSON values and JavaScript numbers. A number is an
  IEEE double: a finite value, kept as the rational it denotes, one of the two
  infinities or NaN. The two zeros are one value. HOL equality on \<open>jsnum\<close> is then
  the SameValueZero comparison that \<^verbatim>\<open>Array.prototype.includes\<close> uses (NaN is found, the
  zeros are equal).
\<close>

datatype jsnum = NaN | PosInf | NegInf | Fin rat

subsection \<open>Rounding to a double\<close>

text \<open>
  \<open>to_double x\<close> is the double nearest to the rational \<open>x\<close>, ties to the even
  significand: 53 bits of significand, exponents from -1022 (below it the spacing
  stays \<open>2 ^ -1074\<close>), and an infinity when the rounded value reaches \<open>2 ^ 1024\<close>,
  that is when the exponent is 1024 or more, or 1023 with a significand rounded up to
  \<open>2 ^ 53\<close>. It is what the parser does with a number literal and what an addition
  does with the exact sum.
\<close>

definition pow2 :: "int \<Rightarrow> rat" where
  "pow2 e = (if 0 \<le> e then 2 ^ nat e else 1 / 2 ^ nat (- e))"

text \<open>The number of binary digits of a positive integer.\<close>

function bits :: "int \<Rightarrow> int" where
  "bits n = (if n \<le> 0 then 0 else 1 + bits (n div 2))"
  by pat_completeness auto

termination bits
  by (relation "measure nat") auto

declare bits.simps [simp del]

text \<open>The exponent \<open>e\<close> with \<open>2 ^ e \<le> x < 2 ^ (e + 1)\<close>, for a positive \<open>x\<close>.\<close>

definition ilog2 :: "rat \<Rightarrow> int" where
  "ilog2 x =
     (let d = bits (fst (quotient_of x)) - bits (snd (quotient_of x))
      in if pow2 d \<le> x then d else d - 1)"

definition round_half_even :: "rat \<Rightarrow> int" where
  "round_half_even y =
     (let n = \<lfloor>y\<rfloor>; f = y - of_int n
      in if f < 1 / 2 then n else if 1 / 2 < f then n + 1 else if even n then n else n + 1)"

definition to_double :: "rat \<Rightarrow> jsnum" where
  "to_double x =
     (if x = 0 then Fin 0
      else
        let a = \<bar>x\<bar>;
            e = max (ilog2 a) (- 1022);
            q = pow2 (e - 52);
            m = round_half_even (a / q);
            r = of_int m * q
        in if 1024 \<le> e \<or> (e = 1023 \<and> 2 ^ 53 \<le> m) then (if x < 0 then NegInf else PosInf)
           else Fin (if x < 0 then - r else r))"

fun as_double :: "jsnum \<Rightarrow> jsnum" where
  "as_double (Fin x) = to_double x"
| "as_double n = n"

text \<open>\<open>js_add a b\<close> is \<^verbatim>\<open>a + b\<close> on numbers: the exact sum, rounded.\<close>

fun js_add :: "jsnum \<Rightarrow> jsnum \<Rightarrow> jsnum" where
  "js_add NaN b = NaN"
| "js_add PosInf NaN = NaN"
| "js_add PosInf NegInf = NaN"
| "js_add PosInf b = PosInf"
| "js_add NegInf NaN = NaN"
| "js_add NegInf PosInf = NaN"
| "js_add NegInf b = NegInf"
| "js_add (Fin x) (Fin y) = to_double (x + y)"
| "js_add (Fin x) b = b"

text \<open>\<open>js_gt a b\<close> is \<^verbatim>\<open>a > b\<close>: false as soon as one side is NaN.\<close>

fun js_gt :: "jsnum \<Rightarrow> jsnum \<Rightarrow> bool" where
  "js_gt NaN b = False"
| "js_gt a NaN = False"
| "js_gt PosInf b = (b \<noteq> PosInf)"
| "js_gt NegInf b = False"
| "js_gt (Fin x) PosInf = False"
| "js_gt (Fin x) NegInf = True"
| "js_gt (Fin x) (Fin y) = (y < x)"

subsection \<open>Values of a parsed JSON object\<close>

text \<open>
  A field of a JSON object is a primitive value; a key the object does not have reads
  as \<^verbatim>\<open>undefined\<close>. \<open>JNum\<close> holds the value of the number literal; reading it gives the
  double the parser made of it.
\<close>

datatype jsval = JUndefined | JNull | JBool bool | JNum jsnum | JStr string

fun truthy :: "jsval \<Rightarrow> bool" where
  "truthy JUndefined = False"
| "truthy JNull = False"
| "truthy (JBool b) = b"
| "truthy (JNum n) = (as_double n \<noteq> NaN \<and> as_double n \<noteq> Fin 0)"
| "truthy (JStr s) = (s \<noteq> [])"

text \<open>
  Two functions of the JavaScript engine are not part of the repository and are
  parameters of the model; every theorem below holds for each engine. \<open>StringToNumber\<close>
  is the conversion of a non-empty string to a number. \<open>large_digits\<close> gives the digits
  that \<^verbatim>\<open>toLocaleString\<close> prints for an integer of \<open>2 ^ 53\<close> or more (it does not print all
  the digits of such a double).
\<close>

record engine =
  StringToNumber :: "string \<Rightarrow> jsnum"
  large_digits :: "int \<Rightarrow> string"

text \<open>\<^verbatim>\<open>Number(v)\<close>. The empty string converts to 0.\<close>

fun Number :: "engine \<Rightarrow> jsval \<Rightarrow> jsnum" where
  "Number js JUndefined = NaN"
| "Number js JNull = Fin 0"
| "Number js (JBool b) = (if b then Fin 1 else Fin 0)"
| "Number js (JNum n) = as_double n"
| "Number js (JStr s) = (if s = [] then Fin 0 else as_double (StringToNumber js s))"

text \<open>\<open>or0 v\<close> is \<^verbatim>\<open>v || 0\<close>.\<close>

definition or0 :: "jsval \<Rightarrow> jsval" where
  "or0 v = (if truthy v then v else JNum (Fin 0))"

subsection \<open>Formatting an amount\<close>

definition digit_char :: "int \<Rightarrow> char" where
  "digit_char d = char_of (48 + d)"

text \<open>The decimal digits of a non-negative integer.\<close>

function decimal :: "int \<Rightarrow> string" where
  "decimal n = (if n < 10 then [digit_char n] else decimal (n div 10) @ [digit_char (n mod 10)])"
  by pat_completeness auto

termination decimal
  by (relation "measure nat") auto

declare decimal.simps [simp del]

text \<open>Commas after every second digit of a reversed digit string.\<close>

fun group2_rev :: "string \<Rightarrow> string" where
  "group2_rev (a # b # c # rest) = a # b # CHR '','' # group2_rev (c # rest)"
| "group2_rev ds = ds"

text \<open>
  The grouping of the locale en-IN: the last three digits, then groups of two
  (12,34,567).
\<close>

definition group_en_IN :: "string \<Rightarrow> string" where
  "group_en_IN ds =
     (if length ds \<le> 3 then ds
      else rev (group2_rev (rev (take (length ds - 3) ds))) @ CHR '','' # drop (length ds - 3) ds)"

text \<open>\<^verbatim>\<open>Math.round\<close>: the nearest integer, a half going up.\<close>

definition Math_round :: "rat \<Rightarrow> int" where
  "Math_round x = \<lfloor>x + 1 / 2\<rfloor>"

definition infinity_sign :: string where
  "infinity_sign = [CHR 0xE2, CHR 0x88, CHR 0x9E]"

text \<open>The digits of a rounded amount: all of them below \<open>2 ^ 53\<close>, the engine's above.\<close>

definition integer_digits :: "engine \<Rightarrow> int \<Rightarrow> string" where
  "integer_digits js k = (if k < 2 ^ 53 then decimal k else large_digits js k)"

text \<open>
  \<^verbatim>\<open>Math.round(n).toLocaleString('en-IN')\<close>. A negative value above \<open>-1/2\<close> rounds to
  the negative zero, which is printed with its sign.
\<close>

definition round_toLocaleString :: "engine \<Rightarrow> jsnum \<Rightarrow> string" where
  "round_toLocaleString js n =
     (case n of
        NaN \<Rightarrow> ''NaN''
      | PosInf \<Rightarrow> infinity_sign
      | NegInf \<Rightarrow> CHR ''-'' # infinity_sign
      | Fin x \<Rightarrow>
          (let r = Math_round x in
           if r < 0 \<or> (r = 0 \<and> x < 0)
           then CHR ''-'' # group_en_IN (integer_digits js (- r))
           else group_en_IN (integer_digits js r)))"

definition rupee_sign :: string where
  "rupee_sign = [CHR 0xE2, CHR 0x82, CHR 0xB9]"

text \<open>
  \<^verbatim>\<open>inr(n)\<close> of fbt_widget.js, line 11, for a number \<open>n\<close>: \<^verbatim>\<open>n || 0\<close> turns NaN
  into 0.
\<close>

definition inr :: "engine \<Rightarrow> jsnum \<Rightarrow> string" where
  "inr js n = rupee_sign @ round_toLocaleString js (if n = NaN \<or> n = Fin 0 then Fin 0 else n)"

subsection \<open>Percent encoding\<close>

definition uri_unreserved :: "char \<Rightarrow> bool" where
  "uri_unreserved c =
     (let n = (of_char c :: nat) in
      (65 \<le> n \<and> n \<le> 90) \<or> (97 \<le> n \<and> n \<le> 122) \<or> (48 \<le> n \<and> n \<le> 57) \<or>
      c \<in> set ''-_.!~*'()'')"

definition hex_char :: "nat \<Rightarrow> char" where
  "hex_char d = (if d < 10 then char_of (48 + d) else char_of (55 + d))"

text \<open>\<^verbatim>\<open>encodeURIComponent\<close> on the UTF-8 bytes of a string.\<close>

definition encodeURIComponent :: "string \<Rightarrow> string" where
  "encodeURIComponent s =
     concat (map (\<lambda>c. if uri_unreserved c then [c]
                        else [CHR ''%'', hex_char ((of_char c :: nat) div 16),
                              hex_char ((of_char c :: nat) mod 16)]) s)"

section \<open>Network requests\<close>

text \<open>
  A call of \<^verbatim>\<open>fetch\<close> is recorded with its method, URL, headers and body. The body of
  the batch request is the JSON text of \<^verbatim>\<open>{ lines }\<close>, kept as its list of lines;
  \<^verbatim>\<open>JSON.stringify\<close> writes a number that is not finite as \<^verbatim>\<open>null\<close>.
\<close>

datatype json_number = JsonNull | JsonNumber rat

fun stringify_number :: "jsnum \<Rightarrow> json_number" where
  "stringify_number (Fin x) = JsonNumber x"
| "stringify_number n = JsonNull"

record line =
  line_variant_id :: jsnum
  qty :: nat

record json_line =
  json_variant_id :: json_number
  json_qty :: json_number

definition stringify_line :: "line \<Rightarrow> json_line" where
  "stringify_line l =
     \<lparr>json_variant_id = stringify_number (line_variant_id l),
      json_qty = JsonNumber (of_nat (qty l))\<rparr>"

datatype req_body = NoBody | JsonLines "json_line list" | FormData string

record request =
  meth :: string
  url :: string
  headers :: "(string \<times> string) list"
  body :: req_body

text \<open>
  What an awaited \<^verbatim>\<open>fetch\<close> gives: a rejection (network failure), or a response with
  its \<^verbatim>\<open>ok\<close> flag and its body. A body read with \<^verbatim>\<open>res.json()\<close> parses or does not.
\<close>

datatype 'a fetched = NetworkError | Response bool 'a

datatype 'a parsed = Unparseable | Parsed 'a

section \<open>The bundle (FBT) widget: fbt_widget.js\<close>

text \<open>
  An item of the payload. Only the four keys below are read by the handlers; the
  titles, image and links of an item go into the static markup of its row, which is
  not modelled.
\<close>

record item =
  variant_id :: jsval
  price :: jsval
  compare_at_price :: jsval
  isMain :: jsval

text \<open>
  The parsed body of the FBT response. Reading \<^verbatim>\<open>payload.items\<close> throws on \<^verbatim>\<open>null\<close>;
  on any other value it gives an array of items or something that is not an array.
\<close>

datatype payload = NullPayload | Payload "item list option"

text \<open>
  A rendered checkbox \<^verbatim>\<open>input.fbt-check\<close>. Its \<^verbatim>\<open>data-vid\<close> attribute is written from
  a number by the row template (line 37) and read back with \<^verbatim>\<open>Number\<close> (lines 127 and
  144); the decimal text of a number reads back as that number, so the attribute is
  kept as the number.
\<close>

record checkbox =
  vid :: jsnum
  checked :: bool

text \<open>
  The widget root \<^verbatim>\<open>[data-fbt-root]\<close>: its \<^verbatim>\<open>style.display\<close>, the optional skeleton
  elements found under it (\<^verbatim>\<open>#fbtItems\<close>, the display of \<^verbatim>\<open>#fbtTotals\<close>, the text of
  \<^verbatim>\<open>#fbtTotalSale\<close> and \<^verbatim>\<open>#fbtTotalCompare\<close>, the \<^verbatim>\<open>disabled\<close> flag of
  \<^verbatim>\<open>#fbtAddBtn\<close>), whether that button is the submit button of a form, and the
  \<^verbatim>\<open>.fbt-check\<close> inputs under the root in document order.
\<close>

record widget =
  display :: string
  items_wrap :: bool
  totals_wrap :: "string option"
  sale_el :: "string option"
  comp_el :: "string option"
  add_btn :: "bool option"
  btn_submits :: bool
  checks :: "checkbox list"

text \<open>
  What the handler reads from the page besides the widget: three attributes of the
  root, the \<^verbatim>\<open>variant\<close> parameter of the page URL, and the value of the
  \<^verbatim>\<open>csrfmiddlewaretoken\<close> input when there is one.
\<close>

record env =
  data_source_variant :: "string option"
  url_variant :: "string option"
  data_api_fbt :: "string option"
  data_cart_batch :: "string option"
  csrf_input :: "string option"

datatype js_error = TypeError | FetchRejected | LibraryError | SyntaxError

text \<open>
  The page as the script sees it. \<open>listeners\<close> holds what the two listeners
  registered at lines 137 and 142 close over (\<^verbatim>\<open>all\<close> and \<^verbatim>\<open>cartBatch\<close>) once they are
  registered; \<open>form_submits\<close> counts the submissions of the form that holds the
  button; \<open>uncaught\<close> collects the errors that leave a handler.
\<close>

record page =
  fbt_root :: "widget option"
  listeners :: "(item list \<times> string) option"
  requests :: "request list"
  location_href :: string
  form_submits :: nat
  uncaught :: "js_error list"

text \<open>\<open>s || d\<close> for an attribute that may be missing.\<close>

definition attr_or :: "string option \<Rightarrow> string \<Rightarrow> string" where
  "attr_or a d = (case a of None \<Rightarrow> d | Some s \<Rightarrow> if s = [] then d else s)"

definition getVariantId :: "env \<Rightarrow> string" where
  "getVariantId e = attr_or (data_source_variant e) (attr_or (url_variant e) [])"

definition getApiFbt :: "env \<Rightarrow> string" where
  "getApiFbt e = attr_or (data_api_fbt e) ''/api/fbt/''"

definition getCartBatch :: "env \<Rightarrow> string" where
  "getCartBatch e = attr_or (data_cart_batch e) ''/cart/batch-add/''"

definition csrf :: "env \<Rightarrow> string" where
  "csrf e = attr_or (csrf_input e) []"

definition hide :: "widget \<Rightarrow> widget" where
  "hide r = r\<lparr>display := ''none''\<rparr>"

text \<open>The checkbox of \<^verbatim>\<open>rowHTML(it)\<close>: rendered checked, with the item's id.\<close>

definition rowHTML :: "engine \<Rightarrow> item \<Rightarrow> checkbox" where
  "rowHTML js it = \<lparr>vid = Number js (variant_id it), checked = True\<rparr>"

text \<open>
  \<^verbatim>\<open>root.innerHTML = renderBox(all)\<close> followed by the five queries of lines 115 to 119:
  the box has no \<^verbatim>\<open>#fbtTotals\<close>, empty totals and an enabled button, which lies
  inside the form of line 57 and has no \<^verbatim>\<open>type\<close>: it is the form's submit button.
\<close>

definition renderBox :: "engine \<Rightarrow> item list \<Rightarrow> widget \<Rightarrow> widget" where
  "renderBox js rows r =
     r\<lparr>items_wrap := True, totals_wrap := None, sale_el := Some [], comp_el := Some [],
       add_btn := Some False, btn_submits := True, checks := map (rowHTML js) rows\<rparr>"

text \<open>
  Lines 113 to 123. With a complete skeleton only the content of \<^verbatim>\<open>#fbtItems\<close> is
  replaced; the skeleton is taken to hold no \<^verbatim>\<open>.fbt-check\<close> outside \<^verbatim>\<open>#fbtItems\<close>.
\<close>

definition render :: "engine \<Rightarrow> item list \<Rightarrow> widget \<Rightarrow> widget" where
  "render js all r =
     (if \<not> items_wrap r \<or> sale_el r = None \<or> comp_el r = None \<or> add_btn r = None \<or>
         totals_wrap r = None
      then renderBox js all r
      else r\<lparr>checks := map (rowHTML js) all\<rparr>)"

text \<open>
  \<^verbatim>\<open>recompute\<close>, lines 126 to 135. \<^verbatim>\<open>saleEl\<close>, \<^verbatim>\<open>compEl\<close> and \<^verbatim>\<open>addBtn\<close> are elements
  whenever it runs (\<open>render\<close> has run before); \<^verbatim>\<open>show\<close> skips a missing \<^verbatim>\<open>totalsWrap\<close>.
\<close>

definition recompute :: "engine \<Rightarrow> item list \<Rightarrow> widget \<Rightarrow> widget" where
  "recompute js all r =
     (let vids = map vid (filter checked (checks r));
          picked = filter (\<lambda>it. List.member vids (Number js (variant_id it))) all;
          sumSale = foldl (\<lambda>a b. js_add a (Number js (or0 (price b)))) (Fin 0) picked;
          sumComp = foldl (\<lambda>a b. js_add a (Number js (or0 (compare_at_price b)))) (Fin 0) picked
      in r\<lparr>sale_el := Some (inr js sumSale),
           comp_el := Some (if js_gt sumComp sumSale then inr js sumComp else []),
           totals_wrap := map_option (\<lambda>d. []) (totals_wrap r),
           add_btn := Some (length vids = 0)\<rparr>)"

text \<open>
  The \<^verbatim>\<open>DOMContentLoaded\<close> handler, lines 73 to 162, given the outcome of its one
  \<^verbatim>\<open>fetch\<close>. No other handler is taken to run while it awaits.
\<close>

definition fbt_get :: "env \<Rightarrow> request" where
  "fbt_get e =
     \<lparr>meth = ''GET'',
      url = getApiFbt e @ ''?variant='' @ encodeURIComponent (getVariantId e),
      headers = [(''X-Requested-With'', ''XMLHttpRequest'')],
      body = NoBody\<rparr>"

definition hasLinked :: "item list \<Rightarrow> bool" where
  "hasLinked all =
     (let linked = filter (\<lambda>x. \<not> truthy (isMain x)) all in
      if length linked \<noteq> 0 then True
      else 0 < length all \<and> \<not> list_ex (\<lambda>x. truthy (isMain x)) all)"

text \<open>\<^verbatim>\<open>Array.isArray(payload.items) ? payload.items : []\<close>, line 103.\<close>

definition items_or_empty :: "item list option \<Rightarrow> item list" where
  "items_or_empty items = (case items of Some xs \<Rightarrow> xs | None \<Rightarrow> [])"

definition onReady :: "engine \<Rightarrow> env \<Rightarrow> payload parsed fetched \<Rightarrow> page \<Rightarrow> page" where
  "onReady js e res p =
     (case fbt_root p of
        None \<Rightarrow> p
      | Some r \<Rightarrow>
          if getVariantId e = [] then p\<lparr>fbt_root := Some (hide r)\<rparr>
          else
            let p1 = p\<lparr>requests := requests p @ [fbt_get e]\<rparr>;
                hidden = p1\<lparr>fbt_root := Some (hide r)\<rparr>
            in (case res of
                  NetworkError \<Rightarrow> hidden
                | Response ok b \<Rightarrow>
                    if \<not> ok then hidden
                    else
                      (case b of
                         Unparseable \<Rightarrow> hidden
                       | Parsed NullPayload \<Rightarrow> p1\<lparr>uncaught := uncaught p1 @ [TypeError]\<rparr>
                       | Parsed (Payload items) \<Rightarrow>
                           (let all = items_or_empty items in
                            if \<not> hasLinked all then hidden
                            else p1\<lparr>fbt_root := Some (recompute js all (render js all r)),
                                    listeners := Some (all, getCartBatch e)\<rparr>))))"

text \<open>
  The \<^verbatim>\<open>change\<close> listener of the root (line 137): \<open>target_is_check\<close> says whether the
  event's target has the class \<^verbatim>\<open>fbt-check\<close>.
\<close>

definition on_change :: "engine \<Rightarrow> bool \<Rightarrow> page \<Rightarrow> page" where
  "on_change js target_is_check p =
     (case (listeners p, fbt_root p) of
        (Some (all, cartBatch), Some r) \<Rightarrow>
          if target_is_check then p\<lparr>fbt_root := Some (recompute js all r)\<rparr> else p
      | _ \<Rightarrow> p)"

text \<open>
  The \<^verbatim>\<open>click\<close> listener of the button (lines 142 to 161) alone, given the outcome of
  the \<^verbatim>\<open>fetch\<close> it may issue.
\<close>

definition click_lines :: "widget \<Rightarrow> line list" where
  "click_lines r = map (\<lambda>c. \<lparr>line_variant_id = vid c, qty = 1\<rparr>) (filter checked (checks r))"

definition batch_post :: "env \<Rightarrow> string \<Rightarrow> line list \<Rightarrow> request" where
  "batch_post e cartBatch ls =
     \<lparr>meth = ''POST'',
      url = cartBatch,
      headers = [(''Content-Type'', ''application/json''),
                 (''X-Requested-With'', ''XMLHttpRequest''),
                 (''X-CSRFToken'', csrf e)],
      body = JsonLines (map stringify_line ls)\<rparr>"

definition on_click :: "env \<Rightarrow> unit fetched \<Rightarrow> page \<Rightarrow> page" where
  "on_click e res p =
     (case (listeners p, fbt_root p) of
        (Some (all, cartBatch), Some r) \<Rightarrow>
          let ls = click_lines r in
          if length ls = 0 then p
          else
            let p1 = p\<lparr>requests := requests p @ [batch_post e cartBatch ls]\<rparr>
            in (case res of
                  NetworkError \<Rightarrow> p1
                | Response ok u \<Rightarrow> if \<not> ok then p1 else p1\<lparr>location_href := ''/cart/''\<rparr>)
      | _ \<Rightarrow> p)"

text \<open>
  A click on the button as the browser handles it. A disabled button gets no click.
  Otherwise the listener runs, and since it never calls \<^verbatim>\<open>preventDefault\<close> the default
  action follows: a submit button submits its form, whatever the \<^verbatim>\<open>fetch\<close> of the
  listener gives. Which of the two navigations (the form's, the listener's) wins is
  not modelled: both are recorded.
\<close>

definition click :: "env \<Rightarrow> unit fetched \<Rightarrow> page \<Rightarrow> page" where
  "click e res p =
     (case fbt_root p of
        None \<Rightarrow> p
      | Some r \<Rightarrow>
          (case add_btn r of
             None \<Rightarrow> p
           | Some disabled \<Rightarrow>
               if disabled then p
               else
                 let p1 = on_click e res p
                 in if btn_submits r then p1\<lparr>form_submits := form_submits p1 + 1\<rparr> else p1))"

text \<open>
  What can happen to the rendered widget: the user toggles the \<open>i\<close>-th checkbox, whose
  \<^verbatim>\<open>change\<close> event bubbles to the root; another element under the root fires \<^verbatim>\<open>change\<close>;
  the button is clicked.
\<close>

datatype event = Toggle nat | ChangeOther | Click "unit fetched"

definition toggle :: "nat \<Rightarrow> widget \<Rightarrow> widget" where
  "toggle i r =
     (if i < length (checks r)
      then r\<lparr>checks := (checks r)[i := (checks r ! i)\<lparr>checked := \<not> checked (checks r ! i)\<rparr>]\<rparr>
      else r)"

fun step :: "engine \<Rightarrow> env \<Rightarrow> page \<Rightarrow> event \<Rightarrow> page" where
  "step js e p (Toggle i) =
     (case fbt_root p of
        None \<Rightarrow> p
      | Some r \<Rightarrow>
          if i < length (checks r)
          then on_change js True (p\<lparr>fbt_root := Some (toggle i r)\<rparr>)
          else p)"
| "step js e p ChangeOther = on_change js False p"
| "step js e p (Click res) = click e res p"

definition run :: "engine \<Rightarrow> env \<Rightarrow> page \<Rightarrow> event list \<Rightarrow> page" where
  "run js e p evs = foldl (step js e) p evs"

section \<open>The review panel: src/unnamed/part_000\<close>

text \<open>
  The script looks elements up by id in the whole document and by class inside
  \<^verbatim>\<open>#reviews-area\<close>, changes their style, classes and text, and attaches listeners.
  An element is kept with exactly these parts; \<open>node_value\<close> is the \<^verbatim>\<open>value\<close> of a
  select and the \<^verbatim>\<open>action\<close> of a form.
\<close>

datatype handler = OnSortChange | OnPaginate | SubmitReview | WriteClick | CancelClick

record node =
  style_display :: string
  classList :: "string list"
  textContent :: string
  node_value :: string
  handlers :: "(string \<times> handler) list"

text \<open>
  The content of \<^verbatim>\<open>#reviews-area\<close>, as far as the script's queries see it: the three
  elements it looks up by id when they lie inside the area, the first element that
  matches \<^verbatim>\<open>#reviews-pagination, .tf-pagination-list, .pagination\<close>, and the first
  element of each of the four classes. The eight are taken to be different elements.
  The body of a reviews response is such a content: assigning it to \<^verbatim>\<open>innerHTML\<close>
  replaces the old one.
\<close>

record fragment =
  reviews_sort :: "node option"
  review_form :: "node option"
  review_form_msg :: "node option"
  pager :: "node option"
  btn_write_review :: "node option"
  btn_cancel_review :: "node option"
  form_write_review :: "node option"
  cancel_review_wrap :: "node option"

record area =
  data_slug :: "string option"
  data_variant :: "string option"
  content :: fragment

text \<open>
  The document: the area when there is one, and the three elements with an id when
  they lie outside the area. Ids are taken to be unique, so a lookup that finds the
  id inside the area does not look outside.
\<close>

record document =
  reviews_area :: "area option"
  outer_sort :: "node option"
  outer_form :: "node option"
  outer_msg :: "node option"

text \<open>
  The page of the review panel: the document, the requests sent, the number of
  \<^verbatim>\<open>preventDefault\<close> calls, and the rejections of promises nobody awaits.
\<close>

record reviews =
  doc :: document
  sent :: "request list"
  prevented :: nat
  rejections :: "js_error list"

text \<open>\<open>container()\<close>, with \<open>slug()\<close> and \<open>variantId()\<close> as a template literal prints them.\<close>

definition container :: "reviews \<Rightarrow> area option" where
  "container w = reviews_area (doc w)"

definition interpolate :: "string option \<Rightarrow> string" where
  "interpolate v = (case v of None \<Rightarrow> ''undefined'' | Some s \<Rightarrow> s)"

definition slug :: "reviews \<Rightarrow> string" where
  "slug w = interpolate (case container w of None \<Rightarrow> None | Some a \<Rightarrow> data_slug a)"

definition variantId :: "reviews \<Rightarrow> string" where
  "variantId w = interpolate (case container w of None \<Rightarrow> None | Some a \<Rightarrow> data_variant a)"

text \<open>\<^verbatim>\<open>document.getElementById\<close> for the three ids, and a change of the element found.\<close>

datatype by_id = Sort | Form | Msg

fun inner_of :: "by_id \<Rightarrow> fragment \<Rightarrow> node option" where
  "inner_of Sort f = reviews_sort f"
| "inner_of Form f = review_form f"
| "inner_of Msg f = review_form_msg f"

fun outer_of :: "by_id \<Rightarrow> document \<Rightarrow> node option" where
  "outer_of Sort d = outer_sort d"
| "outer_of Form d = outer_form d"
| "outer_of Msg d = outer_msg d"

definition inside :: "by_id \<Rightarrow> document \<Rightarrow> node option" where
  "inside i d = (case reviews_area d of None \<Rightarrow> None | Some a \<Rightarrow> inner_of i (content a))"

definition getElementById :: "by_id \<Rightarrow> document \<Rightarrow> node option" where
  "getElementById i d = (case inside i d of Some n \<Rightarrow> Some n | None \<Rightarrow> outer_of i d)"

fun set_inner :: "by_id \<Rightarrow> node option \<Rightarrow> fragment \<Rightarrow> fragment" where
  "set_inner Sort n f = f\<lparr>reviews_sort := n\<rparr>"
| "set_inner Form n f = f\<lparr>review_form := n\<rparr>"
| "set_inner Msg n f = f\<lparr>review_form_msg := n\<rparr>"

fun set_outer :: "by_id \<Rightarrow> node option \<Rightarrow> document \<Rightarrow> document" where
  "set_outer Sort n d = d\<lparr>outer_sort := n\<rparr>"
| "set_outer Form n d = d\<lparr>outer_form := n\<rparr>"
| "set_outer Msg n d = d\<lparr>outer_msg := n\<rparr>"

definition in_area :: "(fragment \<Rightarrow> fragment) \<Rightarrow> document \<Rightarrow> document" where
  "in_area g d =
     (case reviews_area d of
        None \<Rightarrow> d
      | Some a \<Rightarrow> d\<lparr>reviews_area := Some (a\<lparr>content := g (content a)\<rparr>)\<rparr>)"

definition update_by_id :: "by_id \<Rightarrow> (node \<Rightarrow> node) \<Rightarrow> document \<Rightarrow> document" where
  "update_by_id i g d =
     (case inside i d of
        Some n \<Rightarrow> in_area (set_inner i (Some (g n))) d
      | None \<Rightarrow> set_outer i (map_option g (outer_of i d)) d)"

text \<open>
  \<^verbatim>\<open>classList.remove\<close>, \<^verbatim>\<open>classList.add\<close> and \<^verbatim>\<open>addEventListener\<close>. Registering the
  same function for the same event twice keeps one listener; the two click listeners
  of lines 122 and 128 are new functions each time \<^verbatim>\<open>bindHandlers\<close> runs.
\<close>

definition class_remove :: "string \<Rightarrow> node \<Rightarrow> node" where
  "class_remove c n = n\<lparr>classList := filter (\<lambda>x. x \<noteq> c) (classList n)\<rparr>"

definition class_add :: "string \<Rightarrow> node \<Rightarrow> node" where
  "class_add c n = (if c \<in> set (classList n) then n else n\<lparr>classList := classList n @ [c]\<rparr>)"

fun is_closure :: "handler \<Rightarrow> bool" where
  "is_closure WriteClick = True"
| "is_closure CancelClick = True"
| "is_closure h = False"

definition addEventListener :: "string \<Rightarrow> handler \<Rightarrow> node \<Rightarrow> node" where
  "addEventListener ev h n =
     (if (ev, h) \<in> set (handlers n) \<and> \<not> is_closure h then n
      else n\<lparr>handlers := handlers n @ [(ev, h)]\<rparr>)"

definition set_display :: "string \<Rightarrow> node \<Rightarrow> node" where
  "set_display v n = n\<lparr>style_display := v\<rparr>"

text \<open>\<^verbatim>\<open>toggleReviewForm(show)\<close>, lines 74 to 93.\<close>

definition toggleReviewForm :: "bool \<Rightarrow> reviews \<Rightarrow> reviews" where
  "toggleReviewForm shown w =
     (case container w of
        None \<Rightarrow> w
      | Some a \<Rightarrow>
          w\<lparr>doc := in_area
            (\<lambda>f. if shown
                  then f\<lparr>form_write_review := map_option (set_display []) (form_write_review f),
                         cancel_review_wrap := map_option (set_display ''none'') (cancel_review_wrap f),
                         btn_write_review := map_option (set_display ''none'') (btn_write_review f),
                         btn_cancel_review := map_option (set_display []) (btn_cancel_review f)\<rparr>
                  else f\<lparr>form_write_review := map_option (set_display ''none'') (form_write_review f),
                         cancel_review_wrap := map_option (set_display []) (cancel_review_wrap f),
                         btn_write_review := map_option (set_display []) (btn_write_review f),
                         btn_cancel_review := map_option (set_display ''none'') (btn_cancel_review f)\<rparr>)
            (doc w)\<rparr>)"

text \<open>
  \<^verbatim>\<open>bindHandlers\<close>, lines 95 to 133. \<^verbatim>\<open>formWrap\<close> and \<^verbatim>\<open>listWrap\<close> are read before the
  toggle of line 119, which does not change whether they exist.
\<close>

definition bindHandlers :: "reviews \<Rightarrow> reviews" where
  "bindHandlers w =
     (case container w of
        None \<Rightarrow> w
      | Some a \<Rightarrow>
          let w1 = w\<lparr>doc := update_by_id Sort (addEventListener ''change'' OnSortChange) (doc w)\<rparr>;
              w2 = w1\<lparr>doc := in_area
                      (\<lambda>f. f\<lparr>pager := map_option (addEventListener ''click'' OnPaginate) (pager f)\<rparr>)
                      (doc w1)\<rparr>;
              w3 = w2\<lparr>doc := update_by_id Form (addEventListener ''submit'' SubmitReview) (doc w2)\<rparr>;
              w4 = (if form_write_review (content a) \<noteq> None \<and> cancel_review_wrap (content a) \<noteq> None
                    then toggleReviewForm False w3 else w3)
          in w4\<lparr>doc := in_area
                 (\<lambda>f. f\<lparr>btn_write_review :=
                          map_option (addEventListener ''click'' WriteClick) (btn_write_review f),
                        btn_cancel_review :=
                          map_option (addEventListener ''click'' CancelClick) (btn_cancel_review f)\<rparr>)
                 (doc w4)\<rparr>)"

text \<open>
  \<^verbatim>\<open>loadReviews(params)\<close>, lines 19 to 27, given what its \<^verbatim>\<open>fetch\<close> gives. A parameter
  is a string or missing; the page 1 of the callers is the string \<^verbatim>\<open>1\<close>. The result is
  the page afterwards and the error the returned promise is rejected with, if any.
\<close>

record params =
  sort_param :: "string option"
  page_param :: "string option"

definition reviews_url :: "params \<Rightarrow> reviews \<Rightarrow> string" where
  "reviews_url ps w =
     (let s = attr_or (sort_param ps)
                (attr_or (map_option node_value (getElementById Sort (doc w))) ''recent'');
          p = attr_or (page_param ps) ''1''
      in ''/products/'' @ slug w @ ''/reviews/?variant='' @ variantId w @
         ''&sort='' @ s @ ''&page='' @ p)"

definition reviews_get :: "params \<Rightarrow> reviews \<Rightarrow> request" where
  "reviews_get ps w =
     \<lparr>meth = ''GET'', url = reviews_url ps w,
      headers = [(''X-Requested-With'', ''XMLHttpRequest'')], body = NoBody\<rparr>"

definition loadReviews :: "params \<Rightarrow> fragment fetched \<Rightarrow> reviews \<Rightarrow> reviews \<times> js_error option" where
  "loadReviews ps res w =
     (let w1 = w\<lparr>sent := sent w @ [reviews_get ps w]\<rparr>
      in case res of
           NetworkError \<Rightarrow> (w1, Some FetchRejected)
         | Response ok html \<Rightarrow>
             (case container w1 of
                None \<Rightarrow> (w1, Some TypeError)
              | Some a \<Rightarrow>
                  (bindHandlers (w1\<lparr>doc := in_area (\<lambda>f. html) (doc w1)\<rparr>), None)))"

text \<open>A call of \<^verbatim>\<open>loadReviews\<close> that nobody awaits: an error becomes an unhandled rejection.\<close>

definition floating :: "reviews \<times> js_error option \<Rightarrow> reviews" where
  "floating r =
     (case snd r of
        None \<Rightarrow> fst r
      | Some err \<Rightarrow> (fst r)\<lparr>rejections := rejections (fst r) @ [err]\<rparr>)"

definition recent_first :: params where
  "recent_first = \<lparr>sort_param = Some ''recent'', page_param = Some ''1''\<rparr>"

text \<open>
  The body of a failed submission as \<^verbatim>\<open>res.json()\<close> gives it: \<^verbatim>\<open>null\<close>, or a value whose
  \<^verbatim>\<open>error\<close> is a string or is missing.
\<close>

datatype error_data = NullData | Data "string option"

definition show_success :: "node \<Rightarrow> node" where
  "show_success m =
     (class_add ''text-success'' (class_remove ''text-danger'' (set_display ''block'' m)))
       \<lparr>textContent := ''Thanks! Your review has been submitted.''\<rparr>"

definition show_error :: "string option \<Rightarrow> node \<Rightarrow> node" where
  "show_error err m =
     (class_add ''text-danger'' (class_remove ''text-success'' (set_display ''block'' m)))
       \<lparr>textContent := attr_or err ''Something went wrong.''\<rparr>"

text \<open>
  \<^verbatim>\<open>submitReview(e)\<close>, lines 29 to 57, for the form with the given \<^verbatim>\<open>action\<close>, given
  what the POST and the reload give. \<open>csrftoken\<close> is the cookie read at line 7,
  missing when there is none.
\<close>

definition review_post :: "string option \<Rightarrow> string \<Rightarrow> request" where
  "review_post csrftoken action =
     \<lparr>meth = ''POST'', url = action,
      headers = [(''X-CSRFToken'', interpolate csrftoken),
                 (''X-Requested-With'', ''XMLHttpRequest'')],
      body = FormData action\<rparr>"

text \<open>Lines 30 to 37, and lines 40 to 44.\<close>

definition posted :: "string option \<Rightarrow> string \<Rightarrow> reviews \<Rightarrow> reviews" where
  "posted csrftoken action w =
     w\<lparr>prevented := prevented w + 1, sent := sent w @ [review_post csrftoken action]\<rparr>"

definition success_shown :: "reviews \<Rightarrow> reviews" where
  "success_shown w = w\<lparr>doc := update_by_id Msg show_success (doc w)\<rparr>"

definition submitReview ::
  "string option \<Rightarrow> string \<Rightarrow> error_data parsed fetched \<Rightarrow> fragment fetched \<Rightarrow> reviews
   \<Rightarrow> reviews \<times> js_error option" where
  "submitReview csrftoken action res reload w =
     (let w1 = posted csrftoken action w
      in case res of
           NetworkError \<Rightarrow> (w1, Some FetchRejected)
         | Response ok b \<Rightarrow>
             if ok then
               (let w2 = success_shown w1
                in case loadReviews recent_first reload w2 of
                     (w3, Some err) \<Rightarrow> (w3, Some err)
                   | (w3, None) \<Rightarrow> (toggleReviewForm False w3, None))
             else
               (case (case b of Unparseable \<Rightarrow> Data (Some ''Error'') | Parsed d \<Rightarrow> d) of
                  NullData \<Rightarrow>
                    (if getElementById Msg (doc w1) = None then (w1, None)
                     else (w1\<lparr>doc := update_by_id Msg
                                        (class_add ''text-danger'' \<circ> class_remove ''text-success'' \<circ>
                                         set_display ''block'') (doc w1)\<rparr>,
                           Some TypeError))
                | Data err \<Rightarrow> (w1\<lparr>doc := update_by_id Msg (show_error err) (doc w1)\<rparr>, None)))"

text \<open>
  \<^verbatim>\<open>onSortChange\<close>, \<^verbatim>\<open>onPaginate\<close> (given the \<^verbatim>\<open>page\<close> parameter of the link the click
  was in, if it was in one) and \<^verbatim>\<open>QSReviews.setVariant\<close>.
\<close>

definition onSortChange :: "string \<Rightarrow> fragment fetched \<Rightarrow> reviews \<Rightarrow> reviews" where
  "onSortChange v res w =
     floating (loadReviews \<lparr>sort_param = Some v, page_param = Some ''1''\<rparr> res w)"

definition onPaginate :: "string option option \<Rightarrow> fragment fetched \<Rightarrow> reviews \<Rightarrow> reviews" where
  "onPaginate link res w =
     (case link of
        None \<Rightarrow> w
      | Some page \<Rightarrow>
          floating (loadReviews \<lparr>sort_param = None, page_param = Some (attr_or page ''1'')\<rparr> res
                      (w\<lparr>prevented := prevented w + 1\<rparr>)))"

definition setVariant :: "string \<Rightarrow> fragment fetched \<Rightarrow> reviews \<Rightarrow> reviews" where
  "setVariant newVariantId res w =
     (case container w of
        None \<Rightarrow> w
      | Some c \<Rightarrow>
          floating (loadReviews recent_first res
                      (w\<lparr>doc := (doc w)\<lparr>reviews_area := Some (c\<lparr>data_variant := Some newVariantId\<rparr>)\<rparr>\<rparr>)))"

section \<open>The gallery mounter: zoom.js\<close>

text \<open>
  The slider library is not part of the repository. A slider instance is numbered in
  the order of construction, and every call into the library is logged. The library's
  behaviour is a parameter: given the calls made so far it says whether the next call
  throws, whether an instance has an \<^verbatim>\<open>update\<close> method, and what \<^verbatim>\<open>activeIndex\<close> reads as
  (nothing when it is not an index).
\<close>

type_synonym inst = nat

datatype swiper_config = ThumbsConfig string | MainConfig inst

datatype libcall =
    New string swiper_config
  | Update inst
  | SlideTo inst nat nat bool
  | Destroy inst bool bool
  | On inst string

record library =
  throws :: "libcall list \<Rightarrow> libcall \<Rightarrow> bool"
  has_update :: "libcall list \<Rightarrow> inst \<Rightarrow> bool"
  activeIndex :: "libcall list \<Rightarrow> inst \<Rightarrow> nat option"

text \<open>A function either returns a value or throws.\<close>

datatype 'a completion = Returned 'a | Threw js_error

text \<open>
  The document as the mounter reads it. Elements are numbered; an element that has
  left the document keeps its number, its attributes and its slides. The document
  holds: the first element that each selector of the mounter matches, the
  \<^verbatim>\<open>data-direction\<close> of an element, the \<^verbatim>\<open>data-color\<close> of each \<^verbatim>\<open>.swiper-slide\<close> under an
  element, the \<^verbatim>\<open>.color-btn\<close> buttons in document order (their \<^verbatim>\<open>data-color\<close>, whether they
  have the class \<^verbatim>\<open>active\<close>, and the click listeners the mounter gave them, each closing
  over the main element and the slider pair of its mount), and the text of the first
  \<^verbatim>\<open>.value-currentColor\<close> and \<^verbatim>\<open>.select-currentColor\<close>. \<open>odd_selector\<close> is the browser's
  answer to the query of line 75 for a colour that does not stand for itself inside
  the quotes of the selector: a SyntaxError, or the index of the colour button found,
  if one is found (an element that is no colour button counts as none: its classes are
  not part of the model).
\<close>

type_synonym element = nat

record color_btn =
  btn_color :: "string option"
  btn_active :: bool
  btn_clicks :: "(element \<times> inst \<times> inst) list"

record gallery_dom =
  querySelector :: "string \<Rightarrow> element option"
  data_direction :: "element \<Rightarrow> string option"
  slides :: "element \<Rightarrow> string option list"
  color_btns :: "color_btn list"
  odd_selector :: "string \<Rightarrow> nat option completion"
  value_currentColor :: "string option"
  select_currentColor :: "string option"

definition present :: "gallery_dom \<Rightarrow> string \<Rightarrow> bool" where
  "present d sel = (querySelector d sel \<noteq> None)"

record pair =
  pair_main :: "inst option"
  pair_thumbs :: "inst option"

text \<open>
  The state of the module and of what it registers: the document, the registry
  \<^verbatim>\<open>_mounted\<close>, the logged library calls, the number of instances constructed, the
  \<^verbatim>\<open>load\<close> listeners on the window and the pending zero-delay timers (each closes over a
  slider pair), and the errors that left an event listener and were reported by the
  browser.
\<close>

record gallery =
  gdom :: gallery_dom
  mounted :: "pair list"
  calls :: "libcall list"
  constructed :: nat
  load_listeners :: "(inst \<times> inst) list"
  timeouts :: "(inst \<times> inst) list"
  reported :: "js_error list"

text \<open>
  A call into the library: it is logged, and the result says whether it threw.
  \<open>try_call\<close> is the next call inside a \<^verbatim>\<open>try\<close> block: it is skipped once an earlier one
  has thrown.
\<close>

definition call :: "library \<Rightarrow> libcall \<Rightarrow> gallery \<Rightarrow> gallery \<times> bool" where
  "call lib c g = (g\<lparr>calls := calls g @ [c]\<rparr>, throws lib (calls g) c)"

definition try_call :: "library \<Rightarrow> libcall \<Rightarrow> gallery \<times> bool \<Rightarrow> gallery \<times> bool" where
  "try_call lib c r = (if snd r then r else call lib c (fst r))"

definition try_update :: "library \<Rightarrow> inst \<Rightarrow> gallery \<times> bool \<Rightarrow> gallery \<times> bool" where
  "try_update lib i r =
     (if \<not> snd r \<and> has_update lib (calls (fst r)) i then call lib (Update i) (fst r) else r)"

text \<open>\<^verbatim>\<open>resetToFirst(main, thumbs)\<close>, lines 7 to 15: whatever is thrown is swallowed.\<close>

definition resetToFirst :: "library \<Rightarrow> inst option \<Rightarrow> inst option \<Rightarrow> gallery \<Rightarrow> gallery" where
  "resetToFirst lib main thumbs g =
     (case main of
        None \<Rightarrow> g
      | Some m \<Rightarrow>
          let r1 = try_update lib m (g, False);
              r2 = (case thumbs of None \<Rightarrow> r1 | Some t \<Rightarrow> try_update lib t r1);
              r3 = try_call lib (SlideTo m 0 0 False) r2;
              r4 = (case thumbs of None \<Rightarrow> r3 | Some t \<Rightarrow> try_call lib (SlideTo t 0 0 False) r3)
          in fst r4)"

text \<open>\<^verbatim>\<open>destroyMounted()\<close>, lines 18 to 26.\<close>

definition destroy_pair :: "library \<Rightarrow> gallery \<Rightarrow> pair \<Rightarrow> gallery" where
  "destroy_pair lib g p =
     (let r1 = (case pair_main p of
                  None \<Rightarrow> (g, False)
                | Some m \<Rightarrow> call lib (Destroy m True True) g);
          r2 = (case pair_thumbs p of
                  None \<Rightarrow> r1
                | Some t \<Rightarrow> try_call lib (Destroy t True True) r1)
      in fst r2)"

definition destroyMounted :: "library \<Rightarrow> gallery \<Rightarrow> gallery" where
  "destroyMounted lib g = (foldl (destroy_pair lib) g (mounted g))\<lparr>mounted := []\<rparr>"

text \<open>
  The query of line 75, \<^verbatim>\<open>.color-btn[data-color="col"]\<close>, on the buttons \<open>btns\<close>. A colour
  without a double quote, a backslash, a line break or a null character stands for
  itself inside the quotes: the query gives the first button with that colour. For any
  other colour the answer is the browser's.
\<close>

definition plain_color :: "string \<Rightarrow> bool" where
  "plain_color c =
     list_all (\<lambda>ch. ch \<notin> set [CHR 0x22, CHR 0x5C, CHR 0x0A, CHR 0x0D, CHR 0x0C, CHR 0x00]) c"

definition query_color_btn :: "gallery_dom \<Rightarrow> color_btn list \<Rightarrow> string \<Rightarrow> nat option completion" where
  "query_color_btn d btns c =
     (if plain_color c
      then Returned (case filter (\<lambda>j. btn_color (btns ! j) = Some c) [0..<length btns] of
                       [] \<Rightarrow> None
                     | j # js \<Rightarrow> Some j)
      else odd_selector d c)"

text \<open>
  \<^verbatim>\<open>updateBtn(idx)\<close>, lines 69 to 79, for the slides under the main element. When the
  query of line 75 throws, the buttons have already lost the class \<^verbatim>\<open>active\<close>.
\<close>

definition updateBtn :: "element \<Rightarrow> nat option \<Rightarrow> gallery_dom \<Rightarrow> gallery_dom \<times> unit completion" where
  "updateBtn main_el idx d =
     (let current = (case idx of
                       None \<Rightarrow> None
                     | Some i \<Rightarrow> if i < length (slides d main_el) then Some (slides d main_el ! i)
                                else None);
          col = (case current of None \<Rightarrow> None | Some c \<Rightarrow> c)
      in case col of
           None \<Rightarrow> (d, Returned ())
         | Some c \<Rightarrow>
             if c = [] then (d, Returned ())
             else
               let cleared = map (\<lambda>b. b\<lparr>btn_active := False\<rparr>) (color_btns d)
               in case query_color_btn d cleared c of
                    Threw err \<Rightarrow> (d\<lparr>color_btns := cleared\<rparr>, Threw err)
                  | Returned hit \<Rightarrow>
                      (d\<lparr>color_btns :=
                           (case hit of
                              None \<Rightarrow> cleared
                            | Some j \<Rightarrow> if j < length cleared
                                        then cleared[j := (cleared ! j)\<lparr>btn_active := True\<rparr>]
                                        else cleared),
                         value_currentColor := map_option (\<lambda>t. c) (value_currentColor d),
                         select_currentColor := map_option (\<lambda>t. c) (select_currentColor d)\<rparr>,
                       Returned ()))"

text \<open>
  \<^verbatim>\<open>initOneGallery(mainSel, thumbsSel, colorSync)\<close>, lines 29 to 99. The state that a
  function leaves is kept whether it returns or throws. The listener of line 81 is
  handed to the library, which runs it when it sees fit, inside its own calls: what it
  then does to the buttons is not modelled, and an exception of it is an exception of
  that library call.
\<close>

definition construct :: "library \<Rightarrow> string \<Rightarrow> swiper_config \<Rightarrow> gallery \<Rightarrow> gallery \<times> inst completion" where
  "construct lib sel cfg g =
     (case call lib (New sel cfg) g of
        (g1, True) \<Rightarrow> (g1, Threw LibraryError)
      | (g1, False) \<Rightarrow> (g1\<lparr>constructed := constructed g1 + 1\<rparr>, Returned (constructed g1)))"

definition color_sync :: "library \<Rightarrow> element \<Rightarrow> inst \<Rightarrow> inst \<Rightarrow> gallery \<Rightarrow> gallery \<times> unit completion" where
  "color_sync lib main_el m t g =
     (case call lib (On m ''slideChange'') g of
        (g1, True) \<Rightarrow> (g1, Threw LibraryError)
      | (g1, False) \<Rightarrow>
          let d1 = (gdom g1)\<lparr>color_btns :=
                      map (\<lambda>b. b\<lparr>btn_clicks := btn_clicks b @ [(main_el, m, t)]\<rparr>)
                          (color_btns (gdom g1))\<rparr>
          in case updateBtn main_el (activeIndex lib (calls g1) m) d1 of
               (d2, Threw err) \<Rightarrow> (g1\<lparr>gdom := d2\<rparr>, Threw err)
             | (d2, Returned u) \<Rightarrow> (g1\<lparr>gdom := d2\<rparr>, Returned ()))"

definition initOneGallery ::
  "library \<Rightarrow> string \<Rightarrow> string \<Rightarrow> bool \<Rightarrow> gallery \<Rightarrow> gallery \<times> pair completion" where
  "initOneGallery lib mainSel thumbsSel colorSync g =
     (case (querySelector (gdom g) mainSel, querySelector (gdom g) thumbsSel) of
        (Some main_el, Some thumbs_el) \<Rightarrow>
          (case construct lib thumbsSel
                  (ThumbsConfig (attr_or (data_direction (gdom g) thumbs_el) ''vertical'')) g of
             (g1, Threw err) \<Rightarrow> (g1, Threw err)
           | (g1, Returned t) \<Rightarrow>
               (case construct lib mainSel (MainConfig t) g1 of
                  (g2, Threw err) \<Rightarrow> (g2, Threw err)
                | (g2, Returned m) \<Rightarrow>
                    let g3 = resetToFirst lib (Some m) (Some t) g2;
                        g4 = g3\<lparr>load_listeners := load_listeners g3 @ [(m, t)],
                                timeouts := timeouts g3 @ [(m, t)]\<rparr>
                    in if colorSync
                       then (case color_sync lib main_el m t g4 of
                               (g5, Threw err) \<Rightarrow> (g5, Threw err)
                             | (g5, Returned u) \<Rightarrow>
                                 (g5, Returned \<lparr>pair_main = Some m, pair_thumbs = Some t\<rparr>))
                       else (g4, Returned \<lparr>pair_main = Some m, pair_thumbs = Some t\<rparr>)))
      | _ \<Rightarrow> (g, Returned \<lparr>pair_main = None, pair_thumbs = None\<rparr>))"

text \<open>
  \<^verbatim>\<open>mountAllGalleries()\<close>, lines 101 to 123. \<open>mount_group\<close> is one selector group: the
  check, the call and the push. An exception ends the whole mount.
\<close>

definition mount_group ::
  "library \<Rightarrow> gallery \<times> js_error option \<Rightarrow> string \<times> string \<times> bool \<Rightarrow> gallery \<times> js_error option" where
  "mount_group lib r grp =
     (case (r, grp) of
        ((g, Some err), x) \<Rightarrow> (g, Some err)
      | ((g, None), (t, m, colorSync)) \<Rightarrow>
          if present (gdom g) t \<and> present (gdom g) m
          then (case initOneGallery lib m t colorSync g of
                  (g1, Threw err) \<Rightarrow> (g1, Some err)
                | (g1, Returned p) \<Rightarrow>
                    (if pair_main p \<noteq> None then g1\<lparr>mounted := mounted g1 @ [p]\<rparr> else g1, None))
          else (g, None))"

definition selector_groups :: "(string \<times> string \<times> bool) list" where
  "selector_groups =
     [(''.thumbs-slider'', ''.tf-product-media-main'', True),
      (''.thumbs-slider1'', ''.tf-product-media-main1'', False),
      (''.thumbs-slider2'', ''.tf-product-media-main2'', False),
      (''.thumbs-slider3'', ''.tf-product-media-main3'', False),
      (''.thumbs-slider4'', ''.tf-product-media-main4'', False)]"

definition mountAllGalleries :: "library \<Rightarrow> gallery \<Rightarrow> gallery \<times> js_error option" where
  "mountAllGalleries lib g = foldl (mount_group lib) (destroyMounted lib g, None) selector_groups"

text \<open>
  What runs later: the timers of line 65, the \<^verbatim>\<open>load\<close> event of the window (its
  listeners are registered with \<^verbatim>\<open>once\<close>), and a click on the \<open>j\<close>-th colour button, which
  runs every listener the button has (lines 84 to 92). A listener looks for the colour
  among the slides of the element it captured; its two \<^verbatim>\<open>slideTo\<close> calls are outside
  every \<^verbatim>\<open>try\<close> block, so one that throws ends the listener and the error is reported;
  the next listener runs all the same.
\<close>

definition run_timeouts :: "library \<Rightarrow> gallery \<Rightarrow> gallery" where
  "run_timeouts lib g =
     foldl (\<lambda>h (m, t). resetToFirst lib (Some m) (Some t) h) (g\<lparr>timeouts := []\<rparr>) (timeouts g)"

definition window_load :: "library \<Rightarrow> gallery \<Rightarrow> gallery" where
  "window_load lib g =
     foldl (\<lambda>h (m, t). resetToFirst lib (Some m) (Some t) h) (g\<lparr>load_listeners := []\<rparr>)
       (load_listeners g)"

definition color_click_one ::
  "library \<Rightarrow> string option \<Rightarrow> gallery \<Rightarrow> element \<times> inst \<times> inst \<Rightarrow> gallery" where
  "color_click_one lib col g l =
     (case l of
        (main_el, m, t) \<Rightarrow>
          (case filter (\<lambda>i. slides (gdom g) main_el ! i = col)
                  [0..<length (slides (gdom g) main_el)] of
             [] \<Rightarrow> g
           | i # rest \<Rightarrow>
               (case try_call lib (SlideTo t i 300 False) (call lib (SlideTo m i 300 False) g) of
                  (g1, True) \<Rightarrow> g1\<lparr>reported := reported g1 @ [LibraryError]\<rparr>
                | (g1, False) \<Rightarrow> g1)))"

definition color_click :: "library \<Rightarrow> nat \<Rightarrow> gallery \<Rightarrow> gallery" where
  "color_click lib j g =
     (if j < length (color_btns (gdom g))
      then foldl (color_click_one lib (btn_color (color_btns (gdom g) ! j))) g
             (btn_clicks (color_btns (gdom g) ! j))
      else g)"

section \<open>Vocabulary of the statements\<close>

subsection \<open>The bundle widget\<close>



definition js_sum :: "jsnum list \<Rightarrow> jsnum" where
  "js_sum ns = foldl js_add (Fin 0) ns"





text \<open>The pages the script can reach from \<open>p0\<close>: the handler, then any events.\<close>

definition reached :: "engine \<Rightarrow> env \<Rightarrow> payload parsed fetched \<Rightarrow> event list \<Rightarrow> page \<Rightarrow> page" where
  "reached js e res evs p0 = run js e (onReady js e res p0) evs"

text \<open>
  Once the listeners are registered, the button is disabled exactly when no checkbox is
  checked.
\<close>

definition button_matches :: "page \<Rightarrow> bool" where
  "button_matches p =
     (case listeners p of
        None \<Rightarrow> True
      | Some l \<Rightarrow>
          (case fbt_root p of
             None \<Rightarrow> False
           | Some r \<Rightarrow> add_btn r = Some (\<not> list_ex checked (checks r))))"

subsection \<open>The review panel\<close>




subsection \<open>The gallery mounter\<close>

text \<open>
  The pairs a mount is expected to register: one per selector group whose two
  elements are present, made of the next two instances (thumbs first), and the
  \<^verbatim>\<open>destroy\<close> calls a teardown is expected to make for a registry.
\<close>

fun expected_pairs :: "(string \<Rightarrow> bool) \<Rightarrow> nat \<Rightarrow> (string \<times> string \<times> bool) list \<Rightarrow> pair list" where
  "expected_pairs pr n [] = []"
| "expected_pairs pr n ((t, m, c) # grps) =
     (if pr t \<and> pr m
      then \<lparr>pair_main = Some (n + 1), pair_thumbs = Some n\<rparr> # expected_pairs pr (n + 2) grps
      else expected_pairs pr n grps)"

definition destroy_calls :: "pair \<Rightarrow> libcall list" where
  "destroy_calls p =
     (case pair_main p of None \<Rightarrow> [] | Some m \<Rightarrow> [Destroy m True True]) @
     (case pair_thumbs p of None \<Rightarrow> [] | Some t \<Rightarrow> [Destroy t True True])"

fun is_New :: "libcall \<Rightarrow> bool" where
  "is_New (New sel cfg) = True"
| "is_New c = False"

fun is_Destroy :: "libcall \<Rightarrow> bool" where
  "is_Destroy (Destroy i a b) = True"
| "is_Destroy c = False"

text \<open>The log of \<open>g'\<close> is the log of \<open>g\<close> followed by calls none of which is a \<^verbatim>\<open>destroy\<close>.\<close>

definition no_destroy_since :: "gallery \<Rightarrow> gallery \<Rightarrow> bool" where
  "no_destroy_since g g' =
     (length (calls g) \<le> length (calls g') \<and>
      take (length (calls g)) (calls g') = calls g \<and>
      list_all (\<lambda>c. \<not> is_Destroy c) (drop (length (calls g)) (calls g')))"

text \<open>
  Every \<^verbatim>\<open>data-color\<close> of the slides under the first element that \<open>sel\<close> matches stands
  for itself in the selector of line 75.
\<close>

definition plain_slides :: "gallery_dom \<Rightarrow> string \<Rightarrow> bool" where
  "plain_slides d sel =
     (case querySelector d sel of
        None \<Rightarrow> True
      | Some el \<Rightarrow> list_all (\<lambda>c. case c of None \<Rightarrow> True | Some s \<Rightarrow> plain_color s) (slides d el))"

section \<open>Concrete inputs\<close>

text \<open>An engine for pages without strings or large amounts: it is never asked.\<close>

definition engine0 :: engine where
  "engine0 = \<lparr>StringToNumber = (\<lambda>s. NaN), large_digits = (\<lambda>k. [])\<rparr>"

text \<open>
  Items with the ids 1 to 5: two with both prices, one flagged as main, one whose
  \<^verbatim>\<open>price\<close> key is missing and one whose \<^verbatim>\<open>compare_at_price\<close> key is missing.
\<close>

definition item_a :: item where
  "item_a = \<lparr>variant_id = JNum (Fin 1), price = JNum (Fin 10),
              compare_at_price = JNum (Fin 15), isMain = JUndefined\<rparr>"

definition item_b :: item where
  "item_b = \<lparr>variant_id = JNum (Fin 2), price = JNum (Fin 20),
              compare_at_price = JNull, isMain = JUndefined\<rparr>"

definition item_main :: item where
  "item_main = \<lparr>variant_id = JNum (Fin 3), price = JNum (Fin 5),
                 compare_at_price = JNull, isMain = JBool True\<rparr>"



text \<open>A root without skeleton, a page that holds it, and the attributes of the page.\<close>

definition bare_root :: widget where
  "bare_root = \<lparr>display = [], items_wrap = False, totals_wrap = None, sale_el = None,
                 comp_el = None, add_btn = None, btn_submits = False, checks = []\<rparr>"

definition page0 :: page where
  "page0 = \<lparr>fbt_root = Some bare_root, listeners = None, requests = [],
             location_href = ''/products/bike/'', form_submits = 0, uncaught = []\<rparr>"

definition env0 :: env where
  "env0 = \<lparr>data_source_variant = Some ''7'', url_variant = None, data_api_fbt = None,
            data_cart_batch = None, csrf_input = Some ''token''\<rparr>"

text \<open>The same page with its own cart-batch endpoint.\<close>

definition env_shop :: env where
  "env_shop = env0\<lparr>data_cart_batch := Some ''/shop/batch/''\<rparr>"

text \<open>
  The response with the items of ids 1 and 2, the widget rendered from it with given
  check marks and totals, and the page that holds this widget.
\<close>

definition payload_ab :: "payload parsed fetched" where
  "payload_ab = Response True (Parsed (Payload (Some [item_a, item_b])))"

definition widget_ab :: "bool \<Rightarrow> bool \<Rightarrow> string \<Rightarrow> string \<Rightarrow> widget" where
  "widget_ab c1 c2 sale cmp =
     \<lparr>display = [], items_wrap = True, totals_wrap = None, sale_el = Some sale,
      comp_el = Some cmp, add_btn = Some (\<not> c1 \<and> \<not> c2), btn_submits = True,
      checks = [\<lparr>vid = Fin 1, checked = c1\<rparr>, \<lparr>vid = Fin 2, checked = c2\<rparr>]\<rparr>"

definition page_ab :: "widget \<Rightarrow> page" where
  "page_ab r =
     \<lparr>fbt_root = Some r, listeners = Some ([item_a, item_b], ''/cart/batch-add/''),
      requests = [fbt_get env0], location_href = ''/products/bike/'', form_submits = 0, uncaught = []\<rparr>"

text \<open>
  A page of the review panel: the area of the product \<^verbatim>\<open>bike\<close>, variant 7, holds the
  form wrapper, the list and the two buttons; the form and its message element lie
  outside the area. \<open>reviews_open\<close> is this page after \<^verbatim>\<open>DOMContentLoaded\<close> and a click
  on the write button: the form is open. \<open>reviews_gone\<close> is the page after
  \<^verbatim>\<open>DOMContentLoaded\<close> from which the area has since been removed: the form outside the
  area still has its \<^verbatim>\<open>submit\<close> listener. \<open>reviews_bare\<close> is a page that never had the
  area. \<open>reviews_inner\<close> is a page whose form and message element lie inside the area,
  with the form open; \<open>fragment_full\<close> is the content of its area as the server renders
  it.
\<close>

definition node0 :: node where
  "node0 = \<lparr>style_display = [], classList = [], textContent = [], node_value = [], handlers = []\<rparr>"

definition fragment_empty :: fragment where
  "fragment_empty =
     \<lparr>reviews_sort = None, review_form = None, review_form_msg = None, pager = None,
      btn_write_review = None, btn_cancel_review = None, form_write_review = None,
      cancel_review_wrap = None\<rparr>"

definition fragment_form :: fragment where
  "fragment_form =
     fragment_empty\<lparr>btn_write_review := Some node0, btn_cancel_review := Some node0,
                    form_write_review := Some node0, cancel_review_wrap := Some node0\<rparr>"

definition doc_bare :: document where
  "doc_bare =
     \<lparr>reviews_area = None, outer_sort = None,
      outer_form = Some (node0\<lparr>node_value := ''/reviews/add/''\<rparr>), outer_msg = Some node0\<rparr>"

definition doc_bike :: document where
  "doc_bike =
     doc_bare\<lparr>reviews_area :=
       Some \<lparr>data_slug = Some ''bike'', data_variant = Some ''7'', content = fragment_form\<rparr>\<rparr>"

definition reviews_bare :: reviews where
  "reviews_bare = \<lparr>doc = doc_bare, sent = [], prevented = 0, rejections = []\<rparr>"

definition reviews_open :: reviews where
  "reviews_open =
     toggleReviewForm True
       (bindHandlers \<lparr>doc = doc_bike, sent = [], prevented = 0, rejections = []\<rparr>)"

definition reviews_gone :: reviews where
  "reviews_gone =
     (let w = bindHandlers \<lparr>doc = doc_bike, sent = [], prevented = 0, rejections = []\<rparr>
      in w\<lparr>doc := (doc w)\<lparr>reviews_area := None\<rparr>\<rparr>)"



text \<open>
  A document with the primary gallery only (the main element 7 with two slides, the
  thumbs element 8) and one colour button, in a browser that rejects every selector
  with an odd colour; the module before its first mount; the same with a slide whose
  colour holds a double quote; a library that never throws, one whose constructor
  throws and one whose \<^verbatim>\<open>on\<close> throws.
\<close>

definition dom_primary :: gallery_dom where
  "dom_primary =
     \<lparr>querySelector = (\<lambda>s. if s = ''.tf-product-media-main'' then Some 7
                           else if s = ''.thumbs-slider'' then Some 8 else None),
      data_direction = (\<lambda>e. None),
      slides = (\<lambda>e. if e = 7 then [Some ''red'', Some ''blue''] else []),
      color_btns = [\<lparr>btn_color = Some ''red'', btn_active = False, btn_clicks = []\<rparr>],
      odd_selector = (\<lambda>c. Threw SyntaxError),
      value_currentColor = Some [],
      select_currentColor = None\<rparr>"

definition gallery0 :: gallery where
  "gallery0 =
     \<lparr>gdom = dom_primary, mounted = [], calls = [], constructed = 0, load_listeners = [],
      timeouts = [], reported = []\<rparr>"

definition gallery_quote :: gallery where
  "gallery_quote =
     gallery0\<lparr>gdom := dom_primary\<lparr>slides :=
       (\<lambda>e. if e = 7 then [Some [CHR ''a'', CHR 0x22, CHR ''b'']] else [])\<rparr>\<rparr>"

definition lib_ok :: library where
  "lib_ok = \<lparr>throws = (\<lambda>h c. False), has_update = (\<lambda>h i. True), activeIndex = (\<lambda>h i. Some 0)\<rparr>"

definition lib_ctor_throws :: library where
  "lib_ctor_throws =
     \<lparr>throws = (\<lambda>h c. is_New c), has_update = (\<lambda>h i. True), activeIndex = (\<lambda>h i. Some 0)\<rparr>"

definition lib_on_throws :: library where
  "lib_on_throws =
     \<lparr>throws = (\<lambda>h c. case c of On i ev \<Rightarrow> True | x \<Rightarrow> False),
      has_update = (\<lambda>h i. True), activeIndex = (\<lambda>h i. Some 0)\<rparr>"

text \<open>A library whose \<^verbatim>\<open>update\<close>, \<^verbatim>\<open>slideTo\<close> and \<^verbatim>\<open>destroy\<close> always throw.\<close>

definition lib_rest_throws :: library where
  "lib_rest_throws =
     \<lparr>throws = (\<lambda>h c. \<not> is_New c \<and> (case c of On i ev \<Rightarrow> False | x \<Rightarrow> True)),
      has_update = (\<lambda>h i. True), activeIndex = (\<lambda>h i. None)\<rparr>"

text \<open>The module after the first mount and after a second one, with the library that never throws.\<close>

definition mounted_once :: gallery where
  "mounted_once = fst (mountAllGalleries lib_ok gallery0)"

definition mounted_twice :: gallery where
  "mounted_twice = fst (mountAllGalleries lib_ok mounted_once)"

section \<open>Theorems: the bundle widget\<close>

subsection \<open>Numbers\<close>

text \<open>The small integers of the concrete inputs are doubles.\<close>

lemma to_double_eval [simp]:
  "to_double 1 = Fin 1" "to_double 2 = Fin 2" "to_double 3 = Fin 3" "to_double 4 = Fin 4"
  "to_double 5 = Fin 5" "to_double 10 = Fin 10" "to_double 12 = Fin 12"
  "to_double 15 = Fin 15" "to_double 20 = Fin 20" "to_double 30 = Fin 30"
  by code_simp+

lemma to_double_0 [simp]: "to_double 0 = Fin 0"
  by (simp add: to_double_def)

text \<open>
  Three amounts whose exact sum is 2.5 add up, as doubles, to a number just below it,
  which is displayed as 2.
\<close>

lemma double_sum_below_half:
  "js_sum (map as_double [Fin (5 / 100), Fin (205 / 100), Fin (40 / 100)])
     = Fin (5629499534213119 / 2251799813685248) \<and>
   5629499534213119 / 2251799813685248 < (5 / 2 :: rat) \<and>
   inr engine0 (Fin (5629499534213119 / 2251799813685248)) = rupee_sign @ ''2''"
  by code_simp

subsection \<open>Totals\<close>








subsection \<open>Hiding the widget\<close>

text \<open>The flag of line 108 says that some item is not flagged as main.\<close>

lemma hasLinked_iff: "hasLinked all \<longleftrightarrow> (\<exists>x\<in>set all. \<not> truthy (isMain x))"
proof (cases "filter (\<lambda>x. \<not> truthy (isMain x)) all = []")
  case True
  then have allmain: "\<forall>x\<in>set all. truthy (isMain x)"
    by (simp add: filter_empty_conv)
  then have "all \<noteq> [] \<longrightarrow> list_ex (\<lambda>x. truthy (isMain x)) all"
    by (cases all) (simp_all add: list_ex_iff)
  with True allmain show ?thesis
    by (auto simp: hasLinked_def Let_def)
next
  case False
  then have "\<exists>x\<in>set all. \<not> truthy (isMain x)"
    by (simp add: filter_empty_conv)
  with False show ?thesis
    by (simp add: hasLinked_def Let_def)
qed

lemma display_recompute: "display (recompute js all r) = display r"
  by (simp add: recompute_def Let_def)

lemma checks_recompute: "checks (recompute js all r) = checks r"
  by (simp add: recompute_def Let_def)

lemma display_render: "display (render js all r) = display r"
  by (simp add: render_def renderBox_def)

lemma checks_render: "checks (render js all r) = map (rowHTML js) all"
  by (simp add: render_def renderBox_def)

lemma onReady_payload:
  assumes "fbt_root p = Some r" and "getVariantId e \<noteq> []"
  shows "onReady js e (Response True (Parsed (Payload items))) p =
         (if hasLinked (items_or_empty items)
          then p\<lparr>requests := requests p @ [fbt_get e],
                 fbt_root := Some (recompute js (items_or_empty items)
                                     (render js (items_or_empty items) r)),
                 listeners := Some (items_or_empty items, getCartBatch e)\<rparr>
          else p\<lparr>requests := requests p @ [fbt_get e], fbt_root := Some (hide r)\<rparr>)"
  using assms by (simp add: onReady_def Let_def)


text \<open>
  C2. Let the root exist and the variant id be known, and let the fetch answer with a
  successful response whose body parses. If the items list is empty (or no array), or
  every item has a truthy \<^verbatim>\<open>_isMain\<close>, the handler sets the root's display to
  \<^verbatim>\<open>none\<close> and changes nothing else of it: no row is rendered. If some item is not
  flagged as main, the root keeps its display and holds one checked row per item.
\<close>

theorem hidden_iff_no_linked:
  assumes "fbt_root p = Some r" and "getVariantId e \<noteq> []"
  shows "((items_or_empty items = [] \<or> (\<forall>x\<in>set (items_or_empty items). truthy (isMain x))) \<longrightarrow>
            fbt_root (onReady js e (Response True (Parsed (Payload items))) p)
              = Some (r\<lparr>display := ''none''\<rparr>)) \<and>
         ((\<exists>x\<in>set (items_or_empty items). \<not> truthy (isMain x)) \<longrightarrow>
            map_option display (fbt_root (onReady js e (Response True (Parsed (Payload items))) p))
              = Some (display r) \<and>
            map_option checks (fbt_root (onReady js e (Response True (Parsed (Payload items))) p))
              = Some (map (rowHTML js) (items_or_empty items)))"
proof (rule conjI; rule impI)
  assume "items_or_empty items = [] \<or> (\<forall>x\<in>set (items_or_empty items). truthy (isMain x))"
  then have "\<not> hasLinked (items_or_empty items)"
    by (auto simp: hasLinked_iff)
  then show "fbt_root (onReady js e (Response True (Parsed (Payload items))) p)
              = Some (r\<lparr>display := ''none''\<rparr>)"
    by (simp add: onReady_payload [OF assms] hide_def)
next
  assume "\<exists>x\<in>set (items_or_empty items). \<not> truthy (isMain x)"
  then have "hasLinked (items_or_empty items)"
    by (simp add: hasLinked_iff)
  then have "fbt_root (onReady js e (Response True (Parsed (Payload items))) p)
             = Some (recompute js (items_or_empty items) (render js (items_or_empty items) r))"
    by (simp add: onReady_payload [OF assms])
  then show "map_option display (fbt_root (onReady js e (Response True (Parsed (Payload items))) p))
              = Some (display r) \<and>
            map_option checks (fbt_root (onReady js e (Response True (Parsed (Payload items))) p))
              = Some (map (rowHTML js) (items_or_empty items))"
    by (simp add: display_recompute checks_recompute display_render checks_render)
qed


theorem hidden_iff_no_linked_witness:
  "fbt_root page0 = Some bare_root \<and> getVariantId env0 \<noteq> [] \<and>
   fbt_root (onReady engine0 env0 (Response True (Parsed (Payload (Some [item_main])))) page0)
     = Some (bare_root\<lparr>display := ''none''\<rparr>) \<and>
   map_option display
     (fbt_root (onReady engine0 env0
                  (Response True (Parsed (Payload (Some [item_main, item_a])))) page0))
     = Some [] \<and>
   map_option checks
     (fbt_root (onReady engine0 env0
                  (Response True (Parsed (Payload (Some [item_main, item_a])))) page0))
     = Some [\<lparr>vid = Fin 3, checked = True\<rparr>, \<lparr>vid = Fin 1, checked = True\<rparr>]"
proof -
  have r: "fbt_root page0 = Some bare_root" by (simp add: page0_def)
  have v: "getVariantId env0 \<noteq> []" by (simp add: getVariantId_def env0_def attr_or_def)
  from hidden_iff_no_linked [OF r v, where items = "Some [item_main]" and js = engine0]
       hidden_iff_no_linked [OF r v, where items = "Some [item_main, item_a]" and js = engine0]
       r v
  show ?thesis
    by (simp add: items_or_empty_def item_main_def item_a_def rowHTML_def bare_root_def)
qed

subsection \<open>The listeners\<close>

text \<open>The closure of the listeners is set by the handler and never changes afterwards.\<close>

lemma listeners_onReady:
  assumes "listeners p0 = None"
  shows "listeners (onReady js e res p0) = None \<or>
         (\<exists>all. listeners (onReady js e res p0) = Some (all, getCartBatch e))"
  using assms
  by (auto simp: onReady_def Let_def split: option.splits fetched.splits parsed.splits payload.splits)

lemma listeners_on_click: "listeners (on_click e res p) = listeners p"
  by (auto simp: on_click_def Let_def split: option.splits fetched.splits prod.splits)

lemma fbt_root_on_click: "fbt_root (on_click e res p) = fbt_root p"
  by (auto simp: on_click_def Let_def split: option.splits fetched.splits prod.splits)

lemma listeners_step: "listeners (step js e p ev) = listeners p"
  by (cases ev)
     (auto simp: on_change_def click_def listeners_on_click Let_def
           split: option.splits prod.splits)

lemma listeners_run: "listeners (run js e p evs) = listeners p"
  unfolding run_def by (induction evs arbitrary: p) (simp_all add: listeners_step)

lemma add_btn_recompute:
  "add_btn (recompute js all r) = Some (\<not> list_ex checked (checks r))"
  by (simp add: recompute_def Let_def list_ex_iff filter_empty_conv)

lemma button_matches_onReady:
  assumes "listeners p0 = None"
  shows "button_matches (onReady js e res p0)"
  using assms
  by (auto simp: button_matches_def onReady_def Let_def add_btn_recompute checks_recompute
           split: option.splits fetched.splits parsed.splits payload.splits)

lemma button_matches_step:
  assumes "button_matches p"
  shows "button_matches (step js e p ev)"
proof (cases ev)
  case (Toggle i)
  with assms show ?thesis
    by (auto simp: button_matches_def on_change_def add_btn_recompute checks_recompute
             split: option.splits prod.splits)
next
  case ChangeOther
  with assms show ?thesis
    by (auto simp: button_matches_def on_change_def split: option.splits prod.splits)
next
  case (Click res)
  with assms show ?thesis
    by (auto simp: button_matches_def click_def listeners_on_click fbt_root_on_click Let_def
             split: option.splits)
qed

lemma button_matches_run:
  "button_matches p \<Longrightarrow> button_matches (run js e p evs)"
  unfolding run_def by (induction evs arbitrary: p) (simp_all add: button_matches_step)

lemma click_lines_empty: "click_lines r = [] \<longleftrightarrow> \<not> list_ex checked (checks r)"
  by (simp add: click_lines_def list_ex_iff filter_empty_conv)


text \<open>The concrete pages, computed.\<close>

lemmas fbt_eval =
  onReady_def page0_def env0_def getVariantId_def attr_or_def hasLinked_def items_or_empty_def
  item_a_def item_b_def render_def renderBox_def bare_root_def recompute_def rowHTML_def
  Let_def or0_def engine0_def getCartBatch_def hide_def payload_ab_def
  reached_def run_def on_change_def toggle_def widget_ab_def page_ab_def

lemma reached_ab:
  "reached engine0 env0 payload_ab [] page0 = page_ab (widget_ab True True (inr engine0 (Fin 30)) [])"
  by (simp add: fbt_eval)

lemma reached_ab_second_off:
  "reached engine0 env0 payload_ab [Toggle 1] page0
   = page_ab (widget_ab True False (inr engine0 (Fin 10)) (inr engine0 (Fin 15)))"
  by (simp add: fbt_eval)

lemma reached_ab_none:
  "reached engine0 env0 payload_ab [Toggle 0, ChangeOther, Toggle 1] page0
   = page_ab (widget_ab False False (inr engine0 (Fin 0)) [])"
  by (simp add: fbt_eval)

text \<open>
  C9. On every page the script reaches with its listeners registered (after the
  initial render and after any sequence of checkbox changes and clicks), the button is
  disabled exactly when no checkbox is checked; and a click while none is checked
  changes nothing: it issues no request.
\<close>

theorem add_button_disabled_iff:
  assumes "listeners p0 = None"
      and "p = reached js e res0 evs p0"
      and "listeners p \<noteq> None"
      and "fbt_root p = Some r"
  shows "add_btn r = Some (\<not> list_ex checked (checks r)) \<and>
         (\<not> list_ex checked (checks r) \<longrightarrow>
            on_click e res p = p \<and> requests (on_click e res p) = requests p)"
proof -
  have "button_matches p"
    unfolding assms(2) reached_def
    by (rule button_matches_run) (rule button_matches_onReady [OF assms(1)])
  with assms(3,4) have b: "add_btn r = Some (\<not> list_ex checked (checks r))"
    by (auto simp: button_matches_def split: option.splits)
  have "\<not> list_ex checked (checks r) \<longrightarrow> on_click e res p = p"
    using assms(4)
    by (auto simp: on_click_def Let_def click_lines_empty [symmetric] split: option.splits)
  with b show ?thesis by simp
qed


theorem add_button_disabled_iff_witness:
  "listeners page0 = None \<and>
   add_btn (widget_ab False False (inr engine0 (Fin 0)) []) = Some True \<and>
   \<not> list_ex checked (checks (widget_ab False False (inr engine0 (Fin 0)) [])) \<and>
   on_click env0 (Response True ()) (page_ab (widget_ab False False (inr engine0 (Fin 0)) []))
     = page_ab (widget_ab False False (inr engine0 (Fin 0)) []) \<and>
   add_btn (widget_ab True False (inr engine0 (Fin 10)) (inr engine0 (Fin 15))) = Some False \<and>
   list_ex checked (checks (widget_ab True False (inr engine0 (Fin 10)) (inr engine0 (Fin 15))))"
proof -
  have l: "listeners page0 = None" by (simp add: page0_def)
  have n: "listeners (page_ab w) \<noteq> None" for w by (simp add: page_ab_def)
  have r: "fbt_root (page_ab w) = Some w" for w by (simp add: page_ab_def)
  from add_button_disabled_iff [OF l reached_ab_none [symmetric] n r, where res = "Response True ()"]
       add_button_disabled_iff [OF l reached_ab_second_off [symmetric] n r, where res = "Response True ()"]
       l
  show ?thesis
    by (simp add: widget_ab_def)
qed

subsection \<open>The click\<close>

text \<open>
  While no checkbox is checked the button is disabled, so the browser delivers no click:
  neither the listener nor the form's submission runs.
\<close>

lemma click_disabled:
  assumes "listeners p0 = None"
      and "p = reached js e res0 evs p0"
      and "listeners p \<noteq> None"
      and "fbt_root p = Some r"
      and "\<not> list_ex checked (checks r)"
  shows "click e res p = p"
proof -
  have "button_matches p"
    unfolding assms(2) reached_def
    by (rule button_matches_run) (rule button_matches_onReady [OF assms(1)])
  with assms(3,4) have "add_btn r = Some (\<not> list_ex checked (checks r))"
    by (auto simp: button_matches_def split: option.splits)
  with assms(4,5) show ?thesis
    by (simp add: click_def)
qed

text \<open>
  The request of the click listener. On a page the script has reached, with the
  listeners registered and at least one row checked, the listener issues exactly one
  request: a POST to the value of \<^verbatim>\<open>data-cart-batch\<close> (to \<^verbatim>\<open>/cart/batch-add/\<close> when the
  attribute is missing or empty) that carries the value of the \<^verbatim>\<open>csrfmiddlewaretoken\<close>
  input in the header \<^verbatim>\<open>X-CSRFToken\<close> and the JSON lines. When the response is ok the
  listener sets the location to \<^verbatim>\<open>/cart/\<close>; on a network failure or any other status
  the listener changes nothing but the request log.
\<close>

lemma click_listener_request:
  assumes "listeners p0 = None"
      and "p = reached js e res0 evs p0"
      and "listeners p = Some (all, cartBatch)"
      and "fbt_root p = Some r"
      and "list_ex checked (checks r)"
  shows "cartBatch = (case data_cart_batch e of
                        None \<Rightarrow> ''/cart/batch-add/''
                      | Some s \<Rightarrow> if s = [] then ''/cart/batch-add/'' else s) \<and>
         batch_post e cartBatch (click_lines r)
           = \<lparr>meth = ''POST'', url = cartBatch,
              headers = [(''Content-Type'', ''application/json''),
                         (''X-Requested-With'', ''XMLHttpRequest''),
                         (''X-CSRFToken'', case csrf_input e of None \<Rightarrow> [] | Some t \<Rightarrow> t)],
              body = JsonLines (map stringify_line (click_lines r))\<rparr> \<and>
         on_click e res p =
           (if res = Response True ()
            then p\<lparr>requests := requests p @ [batch_post e cartBatch (click_lines r)],
                   location_href := ''/cart/''\<rparr>
            else p\<lparr>requests := requests p @ [batch_post e cartBatch (click_lines r)]\<rparr>)"
proof -
  have "listeners p = listeners (onReady js e res0 p0)"
    unfolding assms(2) reached_def by (rule listeners_run)
  with listeners_onReady [OF assms(1), of js e res0] assms(3)
  have "cartBatch = getCartBatch e" by auto
  then have cb: "cartBatch = (case data_cart_batch e of
                        None \<Rightarrow> ''/cart/batch-add/''
                      | Some s \<Rightarrow> if s = [] then ''/cart/batch-add/'' else s)"
    by (simp add: getCartBatch_def attr_or_def)
  have tok: "csrf e = (case csrf_input e of None \<Rightarrow> [] | Some t \<Rightarrow> t)"
    by (simp add: csrf_def attr_or_def split: option.splits)
  have ne: "click_lines r \<noteq> []"
    using assms(5) by (simp add: click_lines_empty)
  have click: "on_click e res p =
           (if res = Response True ()
            then p\<lparr>requests := requests p @ [batch_post e cartBatch (click_lines r)],
                   location_href := ''/cart/''\<rparr>
            else p\<lparr>requests := requests p @ [batch_post e cartBatch (click_lines r)]\<rparr>)"
    using assms(3,4) ne by (cases res) (auto simp: on_click_def Let_def)
  show ?thesis
    using cb click by (simp add: batch_post_def tok)
qed

text \<open>On a page that names its own endpoint, the request goes there.\<close>

lemma click_listener_request_shop:
  "requests (on_click env_shop (Response False ())
               (reached engine0 env_shop payload_ab [] page0))
   = [fbt_get env_shop,
      \<lparr>meth = ''POST'', url = ''/shop/batch/'',
       headers = [(''Content-Type'', ''application/json''),
                  (''X-Requested-With'', ''XMLHttpRequest''),
                  (''X-CSRFToken'', ''token'')],
       body = JsonLines [\<lparr>json_variant_id = JsonNumber 1, json_qty = JsonNumber 1\<rparr>,
                         \<lparr>json_variant_id = JsonNumber 2, json_qty = JsonNumber 1\<rparr>]\<rparr>]"
  by (simp add: fbt_eval env_shop_def on_click_def click_lines_def batch_post_def csrf_def
                stringify_line_def)

text \<open>
  The form. When the script renders the box itself (the root has no \<^verbatim>\<open>#fbtItems\<close>), the
  button is the submit button of the form of line 57, and after the first render it is
  enabled: a click then submits the form, whatever the request of the listener gives.
\<close>

lemma form_submits_on_click: "form_submits (on_click e res p) = form_submits p"
  by (auto simp: on_click_def Let_def split: option.splits fetched.splits prod.splits)

lemma click_submits_rendered_box:
  assumes "fbt_root p0 = Some r0" and "\<not> items_wrap r0" and "getVariantId e \<noteq> []"
      and "hasLinked all"
  shows "form_submits (click e res (onReady js e (Response True (Parsed (Payload (Some all)))) p0))
         = form_submits p0 + 1"
proof -
  let ?r = "recompute js all (render js all r0)"
  let ?p = "onReady js e (Response True (Parsed (Payload (Some all)))) p0"
  have p: "?p = p0\<lparr>requests := requests p0 @ [fbt_get e], fbt_root := Some ?r,
                      listeners := Some (all, getCartBatch e)\<rparr>"
    using onReady_payload [OF assms(1,3), of js "Some all"] assms(4)
    by (simp add: items_or_empty_def)
  obtain x where "x \<in> set all"
    using assms(4) by (auto simp: hasLinked_iff)
  then have "list_ex checked (map (rowHTML js) all)"
    by (auto simp: list_ex_iff rowHTML_def)
  then have btn: "add_btn ?r = Some False"
    by (simp add: add_btn_recompute checks_render)
  have sub: "btn_submits ?r"
    using assms(2) by (simp add: recompute_def Let_def render_def renderBox_def)
  have root: "fbt_root ?p = Some ?r" and fs: "form_submits ?p = form_submits p0"
    unfolding p by simp_all
  show ?thesis
    using root btn sub fs by (simp add: click_def Let_def form_submits_on_click)
qed

text \<open>
  C8, a defect of the script. The page holds a root without skeleton, the response
  brings the items 1 and 2, and the button is clicked with both rows checked. The
  listener behaves as C8 says: one POST to \<^verbatim>\<open>/cart/batch-add/\<close> with the token and the two
  lines, and on a network failure or a failure status it leaves the location alone.
  But the button of the rendered box is a submit button and the listener never calls
  \<^verbatim>\<open>preventDefault\<close>: in both cases the form is submitted, so something does happen.
\<close>

theorem click_submits_form:
  "click env0 NetworkError (reached engine0 env0 payload_ab [] page0)
     = (reached engine0 env0 payload_ab [] page0)
         \<lparr>requests := [fbt_get env0,
                        \<lparr>meth = ''POST'', url = ''/cart/batch-add/'',
                         headers = [(''Content-Type'', ''application/json''),
                                    (''X-Requested-With'', ''XMLHttpRequest''),
                                    (''X-CSRFToken'', ''token'')],
                         body = JsonLines
                                  [\<lparr>json_variant_id = JsonNumber 1, json_qty = JsonNumber 1\<rparr>,
                                   \<lparr>json_variant_id = JsonNumber 2, json_qty = JsonNumber 1\<rparr>]\<rparr>],
          form_submits := 1\<rparr> \<and>
   click env0 (Response False ()) (reached engine0 env0 payload_ab [] page0)
     = click env0 NetworkError (reached engine0 env0 payload_ab [] page0) \<and>
   form_submits (reached engine0 env0 payload_ab [] page0) = 0 \<and>
   location_href (click env0 NetworkError (reached engine0 env0 payload_ab [] page0))
     = ''/products/bike/''"
  by (simp add: fbt_eval click_def on_click_def click_lines_def batch_post_def csrf_def
                stringify_line_def)

text \<open>
  C10. The body of the batch request holds one line per checked checkbox, in document
  order, each with the number of the row's \<^verbatim>\<open>data-vid\<close> as \<^verbatim>\<open>variant_id\<close> and the
  quantity 1 (lines 143 to 145, then \<^verbatim>\<open>JSON.stringify\<close>); an unchecked row gives no
  line, and without a checked row there is no request.
\<close>

theorem batch_lines:
  assumes "listeners p = Some (all, cartBatch)"
      and "fbt_root p = Some r"
  shows "(list_ex checked (checks r) \<longrightarrow>
            (\<exists>rq. requests (on_click e res p) = requests p @ [rq] \<and>
                  body rq = JsonLines (map (\<lambda>c. \<lparr>json_variant_id = stringify_number (vid c),
                                                  json_qty = JsonNumber 1\<rparr>)
                                           (filter checked (checks r))))) \<and>
         (\<not> list_ex checked (checks r) \<longrightarrow> requests (on_click e res p) = requests p)"
proof (intro conjI impI)
  assume some: "list_ex checked (checks r)"
  then have ne: "click_lines r \<noteq> []" by (simp add: click_lines_empty)
  have "requests (on_click e res p) = requests p @ [batch_post e cartBatch (click_lines r)]"
    using assms ne by (cases res) (auto simp: on_click_def Let_def)
  moreover have "body (batch_post e cartBatch (click_lines r))
                 = JsonLines (map (\<lambda>c. \<lparr>json_variant_id = stringify_number (vid c),
                                         json_qty = JsonNumber 1\<rparr>)
                                  (filter checked (checks r)))"
    by (simp add: batch_post_def click_lines_def stringify_line_def comp_def)
  ultimately show "\<exists>rq. requests (on_click e res p) = requests p @ [rq] \<and>
                  body rq = JsonLines (map (\<lambda>c. \<lparr>json_variant_id = stringify_number (vid c),
                                                  json_qty = JsonNumber 1\<rparr>)
                                           (filter checked (checks r)))"
    by blast
next
  assume "\<not> list_ex checked (checks r)"
  then have "click_lines r = []" by (simp add: click_lines_empty)
  then show "requests (on_click e res p) = requests p"
    using assms by (simp add: on_click_def Let_def)
qed


theorem batch_lines_witness:
  "list_ex checked (checks (widget_ab True False (inr engine0 (Fin 10)) (inr engine0 (Fin 15)))) \<and>
   (\<exists>rq. requests (on_click env0 (Response True ())
                    (page_ab (widget_ab True False (inr engine0 (Fin 10)) (inr engine0 (Fin 15)))))
           = [fbt_get env0, rq] \<and>
         body rq = JsonLines [\<lparr>json_variant_id = JsonNumber 1, json_qty = JsonNumber 1\<rparr>])"
proof -
  let ?w = "widget_ab True False (inr engine0 (Fin 10)) (inr engine0 (Fin 15))"
  have s: "listeners (page_ab ?w) = Some ([item_a, item_b], ''/cart/batch-add/'')"
    by (simp add: page_ab_def)
  have r: "fbt_root (page_ab ?w) = Some ?w" by (simp add: page_ab_def)
  have c: "list_ex checked (checks ?w)" by (simp add: widget_ab_def)
  have q: "requests (page_ab ?w) = [fbt_get env0]" by (simp add: page_ab_def)
  have f: "filter checked (checks ?w) = [\<lparr>vid = Fin 1, checked = True\<rparr>]"
    by (simp add: widget_ab_def)
  from batch_lines [OF s r, where e = env0 and res = "Response True ()"] c q f
  show ?thesis by simp
qed

section \<open>Theorems: the review panel\<close>

subsection \<open>Lookups and the parts of the page that an update leaves alone\<close>

lemma get_update_by_id:
  "getElementById i (update_by_id i g d) = map_option g (getElementById i d)"
  by (cases i)
     (auto simp: getElementById_def update_by_id_def inside_def in_area_def split: option.splits)





lemma container_bindHandlers: "container (bindHandlers w) = None \<longleftrightarrow> container w = None"
  by (cases "form_write_review (content (the (container w))) \<noteq> None \<and> cancel_review_wrap (content (the (container w))) \<noteq> None")
     (auto simp: bindHandlers_def container_def Let_def in_area_def update_by_id_def toggleReviewForm_def
           inside_def
           split: option.splits by_id.splits)







lemma container_in_area: "reviews_area (in_area g d) = None \<longleftrightarrow> reviews_area d = None"
  by (simp add: in_area_def split: option.splits)





lemma show_error_shown:
  "style_display (show_error (Some ''Error'') m) = ''block'' \<and>
   textContent (show_error (Some ''Error'') m) = ''Error'' \<and>
   ''text-danger'' \<in> set (classList (show_error (Some ''Error'') m)) \<and>
   ''text-success'' \<notin> set (classList (show_error (Some ''Error'') m))"
  by (simp add: show_error_def class_add_def class_remove_def set_display_def attr_or_def)


text \<open>The concrete pages, computed.\<close>

lemmas reviews_eval =
  reviews_bare_def doc_bare_def node0_def container_def loadReviews_def submitReview_def posted_def
  reviews_get_def reviews_url_def recent_first_def attr_or_def getElementById_def inside_def
  slug_def variantId_def interpolate_def Let_def update_by_id_def show_error_def class_add_def
  class_remove_def set_display_def review_post_def

lemma reviews_open_eval:
  "reviews_open =
     \<lparr>doc = doc_bare\<lparr>reviews_area :=
              Some \<lparr>data_slug = Some ''bike'', data_variant = Some ''7'',
                    content = fragment_empty
                      \<lparr>btn_write_review := Some (node0\<lparr>style_display := ''none'', handlers := [(''click'', WriteClick)]\<rparr>),
                       btn_cancel_review := Some (node0\<lparr>handlers := [(''click'', CancelClick)]\<rparr>),
                       form_write_review := Some node0,
                       cancel_review_wrap := Some (node0\<lparr>style_display := ''none''\<rparr>)\<rparr>\<rparr>,
              outer_form := Some (node0\<lparr>node_value := ''/reviews/add/'', handlers := [(''submit'', SubmitReview)]\<rparr>)\<rparr>,
      sent = [], prevented = 0, rejections = []\<rparr>"
  by (simp add: reviews_open_def doc_bike_def doc_bare_def fragment_form_def fragment_empty_def node0_def
        bindHandlers_def toggleReviewForm_def container_def Let_def update_by_id_def inside_def in_area_def
        addEventListener_def set_display_def)


lemma reviews_gone_eval:
  "reviews_gone =
     \<lparr>doc = doc_bare\<lparr>outer_form :=
              Some (node0\<lparr>node_value := ''/reviews/add/'', handlers := [(''submit'', SubmitReview)]\<rparr>)\<rparr>,
      sent = [], prevented = 0, rejections = []\<rparr>"
  by (simp add: reviews_gone_def doc_bike_def doc_bare_def fragment_form_def fragment_empty_def node0_def
        bindHandlers_def toggleReviewForm_def container_def Let_def update_by_id_def inside_def in_area_def
        addEventListener_def set_display_def)

lemma reviews_open_msg: "getElementById Msg (doc reviews_open) = Some node0"
  by (simp add: reviews_open_eval getElementById_def inside_def doc_bare_def fragment_empty_def)



subsection \<open>A missing container\<close>

text \<open>
  C3, as amended. When \<^verbatim>\<open>#reviews-area\<close> is absent, handler binding, \<^verbatim>\<open>setVariant\<close> and
  the form toggle are silent no-ops: the page is left exactly as it was (no request,
  no change of the document, no rejection).
\<close>

theorem absent_container_noop:
  assumes "container w = None"
  shows "bindHandlers w = w \<and> setVariant v res w = w \<and> toggleReviewForm shown w = w"
  using assms by (simp add: bindHandlers_def setVariant_def toggleReviewForm_def)


theorem absent_container_noop_witness:
  "container reviews_bare = None \<and>
   bindHandlers reviews_bare = reviews_bare \<and>
   setVariant ''8'' (Response True fragment_form) reviews_bare = reviews_bare \<and>
   toggleReviewForm True reviews_bare = reviews_bare"
proof -
  have c: "container reviews_bare = None"
    by (simp add: container_def reviews_bare_def doc_bare_def)
  from absent_container_noop [OF c, of "''8''" "Response True fragment_form" True] c
  show ?thesis by simp
qed

text \<open>
  C3 as stated fails for the other two operations, on a page whose area was removed
  after the listeners were attached. Without the area, \<^verbatim>\<open>loadReviews\<close> sends its request
  for the product \<^verbatim>\<open>undefined\<close> and is rejected with a TypeError at line 25, and
  \<^verbatim>\<open>submitReview\<close> posts the form and writes into the message element.
\<close>

theorem absent_container_counterexample:
  "container reviews_gone = None \<and>
   map_option handlers (getElementById Form (doc reviews_gone)) = Some [(''submit'', SubmitReview)] \<and>
   snd (loadReviews recent_first (Response True fragment_empty) reviews_gone) = Some TypeError \<and>
   sent (fst (loadReviews recent_first (Response True fragment_empty) reviews_gone))
     = [reviews_get recent_first reviews_gone] \<and>
   url (reviews_get recent_first reviews_gone)
     = ''/products/undefined/reviews/?variant=undefined&sort=recent&page=1'' \<and>
   sent (fst (submitReview None ''/reviews/add/'' (Response False Unparseable) NetworkError reviews_gone))
     = [review_post None ''/reviews/add/''] \<and>
   map_option textContent
     (getElementById Msg
        (doc (fst (submitReview None ''/reviews/add/'' (Response False Unparseable)
                     NetworkError reviews_gone))))
     = Some ''Error''"
  by (simp add: reviews_gone_eval reviews_eval)

subsection \<open>Submitting a review\<close>









text \<open>
  C6. When the POST is answered with a failure status and the body does not parse as
  JSON, the message element (when the document has one) is displayed with the class
  \<^verbatim>\<open>text-danger\<close> and the text \<^verbatim>\<open>Error\<close>, the fallback of line 50; nothing is reloaded and
  the handler ends without error.
\<close>

theorem submit_failure_unparseable:
  assumes "getElementById Msg (doc w) = Some m"
  shows "snd (submitReview csrftoken action (Response False Unparseable) reload w) = None \<and>
         sent (fst (submitReview csrftoken action (Response False Unparseable) reload w))
           = sent w @ [review_post csrftoken action] \<and>
         getElementById Msg (doc (fst (submitReview csrftoken action (Response False Unparseable) reload w)))
           = Some (show_error (Some ''Error'') m) \<and>
         textContent (show_error (Some ''Error'') m) = ''Error'' \<and>
         style_display (show_error (Some ''Error'') m) = ''block'' \<and>
         ''text-danger'' \<in> set (classList (show_error (Some ''Error'') m)) \<and>
         ''text-success'' \<notin> set (classList (show_error (Some ''Error'') m))"
proof -
  have sub: "submitReview csrftoken action (Response False Unparseable) reload w
             = ((posted csrftoken action w)
                  \<lparr>doc := update_by_id Msg (show_error (Some ''Error'')) (doc (posted csrftoken action w))\<rparr>,
                None)"
    by (simp add: submitReview_def Let_def)
  have d: "doc (posted csrftoken action w) = doc w" by (simp add: posted_def)
  have s: "sent (posted csrftoken action w) = sent w @ [review_post csrftoken action]"
    by (simp add: posted_def)
  show ?thesis
    unfolding sub using assms show_error_shown [of m]
    by (simp add: get_update_by_id d s)
qed


theorem submit_failure_unparseable_witness:
  "getElementById Msg (doc reviews_open) = Some node0 \<and>
   snd (submitReview None ''/reviews/add/'' (Response False Unparseable) NetworkError reviews_open)
     = None \<and>
   sent (fst (submitReview None ''/reviews/add/'' (Response False Unparseable) NetworkError
                reviews_open))
     = [review_post None ''/reviews/add/''] \<and>
   map_option textContent
     (getElementById Msg
        (doc (fst (submitReview None ''/reviews/add/'' (Response False Unparseable) NetworkError
                     reviews_open))))
     = Some ''Error''"
proof -
  have s: "sent reviews_open = []" by (simp add: reviews_open_eval)
  note t = submit_failure_unparseable [OF reviews_open_msg, of None "''/reviews/add/''" NetworkError]
  let ?r = "submitReview None ''/reviews/add/'' (Response False Unparseable) NetworkError reviews_open"
  from t have e: "snd ?r = None"
    by blast
  from t have "sent (fst ?r) = sent reviews_open @ [review_post None ''/reviews/add/'']"
    by blast
  then have q: "sent (fst ?r) = [review_post None ''/reviews/add/'']"
    by (simp add: s)
  from t have "getElementById Msg (doc (fst ?r)) = Some (show_error (Some ''Error'') node0)"
              "textContent (show_error (Some ''Error'') node0) = ''Error''"
    by blast+
  then have m: "map_option textContent (getElementById Msg (doc (fst ?r))) = Some ''Error''"
    by simp
  from reviews_open_msg e q m show ?thesis
    by blast
qed

section \<open>Theorems: the gallery mounter\<close>

subsection \<open>What a mount leaves alone\<close>

text \<open>
  A library call changes the log only, and \<^verbatim>\<open>updateBtn\<close> changes neither what the
  selectors match nor the slides.
\<close>

lemma call_frame:
  "gdom (fst (call lib c g)) = gdom g \<and> mounted (fst (call lib c g)) = mounted g \<and>
   constructed (fst (call lib c g)) = constructed g \<and>
   load_listeners (fst (call lib c g)) = load_listeners g \<and> timeouts (fst (call lib c g)) = timeouts g"
  by (simp add: call_def)

lemma try_call_frame:
  "gdom (fst (try_call lib c r)) = gdom (fst r) \<and> mounted (fst (try_call lib c r)) = mounted (fst r) \<and>
   constructed (fst (try_call lib c r)) = constructed (fst r) \<and>
   load_listeners (fst (try_call lib c r)) = load_listeners (fst r) \<and>
   timeouts (fst (try_call lib c r)) = timeouts (fst r)"
  by (simp add: try_call_def call_def)

lemma try_update_frame:
  "gdom (fst (try_update lib i r)) = gdom (fst r) \<and> mounted (fst (try_update lib i r)) = mounted (fst r) \<and>
   constructed (fst (try_update lib i r)) = constructed (fst r) \<and>
   load_listeners (fst (try_update lib i r)) = load_listeners (fst r) \<and>
   timeouts (fst (try_update lib i r)) = timeouts (fst r)"
  by (simp add: try_update_def call_def)

lemma resetToFirst_frame:
  "gdom (resetToFirst lib a b g) = gdom g \<and> mounted (resetToFirst lib a b g) = mounted g \<and>
   constructed (resetToFirst lib a b g) = constructed g \<and>
   load_listeners (resetToFirst lib a b g) = load_listeners g \<and>
   timeouts (resetToFirst lib a b g) = timeouts g"
  by (cases a; cases b) (simp_all add: resetToFirst_def Let_def try_call_frame try_update_frame)

lemma updateBtn_frame:
  "querySelector (fst (updateBtn el idx d)) = querySelector d \<and>
   slides (fst (updateBtn el idx d)) = slides d"
  by (simp add: updateBtn_def Let_def split: option.splits completion.splits)

lemma present_eq: "querySelector d' = querySelector d \<Longrightarrow> present d' = present d"
  by (simp add: present_def fun_eq_iff)

lemma plain_slides_eq:
  "querySelector d' = querySelector d \<Longrightarrow> slides d' = slides d \<Longrightarrow>
     plain_slides d' sel = plain_slides d sel"
  by (simp add: plain_slides_def split: option.splits)

subsection \<open>Exceptions\<close>

text \<open>
  The query of \<^verbatim>\<open>updateBtn\<close> returns when the colours of the slides are plain. Then, when
  the constructor and the \<^verbatim>\<open>on\<close> registration return too, every step of a mount
  returns: the other calls into the library are made inside \<^verbatim>\<open>try\<close> blocks.
\<close>

lemma updateBtn_returns:
  assumes "list_all (\<lambda>c. case c of None \<Rightarrow> True | Some s \<Rightarrow> plain_color s) (slides d el)"
  shows "snd (updateBtn el idx d) = Returned ()"
proof -
  have "plain_color c" if "i < length (slides d el)" "slides d el ! i = Some c" for i c
    using assms that by (auto simp: list_all_length split: option.splits)
  then show ?thesis
    by (auto simp: updateBtn_def Let_def query_color_btn_def
             split: option.splits completion.splits if_splits)
qed

lemma construct_ok:
  assumes "\<And>h sel cfg. \<not> throws lib h (New sel cfg)"
  shows "construct lib sel cfg g
         = (g\<lparr>calls := calls g @ [New sel cfg], constructed := constructed g + 1\<rparr>,
            Returned (constructed g))"
  using assms by (simp add: construct_def call_def)

lemma color_sync_ok:
  assumes on: "\<And>h i ev. \<not> throws lib h (On i ev)"
      and plain: "list_all (\<lambda>c. case c of None \<Rightarrow> True | Some s \<Rightarrow> plain_color s) (slides (gdom g) el)"
  shows "\<exists>g1. color_sync lib el m t g = (g1, Returned ()) \<and>
              querySelector (gdom g1) = querySelector (gdom g) \<and>
              slides (gdom g1) = slides (gdom g) \<and> mounted g1 = mounted g \<and>
              constructed g1 = constructed g"
proof -
  let ?g1 = "g\<lparr>calls := calls g @ [On m ''slideChange'']\<rparr>"
  let ?d1 = "(gdom g)\<lparr>color_btns :=
               map (\<lambda>b. b\<lparr>btn_clicks := btn_clicks b @ [(el, m, t)]\<rparr>) (color_btns (gdom g))\<rparr>"
  let ?u = "updateBtn el (activeIndex lib (calls ?g1) m) ?d1"
  have "snd ?u = Returned ()"
    using plain by (intro updateBtn_returns) simp
  then obtain d2 where u: "?u = (d2, Returned ())"
    by (cases ?u) auto
  have f: "querySelector d2 = querySelector (gdom g)" "slides d2 = slides (gdom g)"
    using updateBtn_frame [of el "activeIndex lib (calls ?g1) m" ?d1] u by simp_all
  have "color_sync lib el m t g = (?g1\<lparr>gdom := d2\<rparr>, Returned ())"
    using on u by (simp add: color_sync_def call_def Let_def)
  with f show ?thesis by simp
qed

lemma initOneGallery_ok:
  assumes new: "\<And>h sel cfg. \<not> throws lib h (New sel cfg)"
      and on: "\<And>h i ev. \<not> throws lib h (On i ev)"
      and here: "querySelector (gdom g) mainSel = Some me" "querySelector (gdom g) thumbsSel = Some te"
      and plain: "colorSync \<longrightarrow> list_all (\<lambda>c. case c of None \<Rightarrow> True | Some s \<Rightarrow> plain_color s) (slides (gdom g) me)"
  shows "\<exists>g1. initOneGallery lib mainSel thumbsSel colorSync g
               = (g1, Returned \<lparr>pair_main = Some (constructed g + 1), pair_thumbs = Some (constructed g)\<rparr>) \<and>
              querySelector (gdom g1) = querySelector (gdom g) \<and>
              slides (gdom g1) = slides (gdom g) \<and> mounted g1 = mounted g \<and>
              constructed g1 = constructed g + 2"
proof -
  let ?t = "constructed g"
  let ?m = "constructed g + 1"
  let ?g1 = "g\<lparr>calls := calls g @ [New thumbsSel (ThumbsConfig (attr_or (data_direction (gdom g) te) ''vertical''))],
               constructed := constructed g + 1\<rparr>"
  let ?g2 = "?g1\<lparr>calls := calls ?g1 @ [New mainSel (MainConfig ?t)], constructed := constructed ?g1 + 1\<rparr>"
  let ?g3 = "resetToFirst lib (Some ?m) (Some ?t) ?g2"
  let ?g4 = "?g3\<lparr>load_listeners := load_listeners ?g3 @ [(?m, ?t)], timeouts := timeouts ?g3 @ [(?m, ?t)]\<rparr>"
  have c1: "construct lib thumbsSel (ThumbsConfig (attr_or (data_direction (gdom g) te) ''vertical'')) g
            = (?g1, Returned ?t)"
    by (rule construct_ok [OF new])
  have c2: "construct lib mainSel (MainConfig ?t) ?g1 = (?g2, Returned ?m)"
    using construct_ok [OF new, of mainSel "MainConfig ?t" ?g1] by simp
  have f4: "gdom ?g4 = gdom g \<and> mounted ?g4 = mounted g \<and> constructed ?g4 = constructed g + 2"
    using resetToFirst_frame [of lib "Some ?m" "Some ?t" ?g2] by simp
  show ?thesis
  proof (cases colorSync)
    case False
    with here c1 c2 f4 show ?thesis
      by (simp add: initOneGallery_def Let_def)
  next
    case True
    with plain f4 have "list_all (\<lambda>c. case c of None \<Rightarrow> True | Some s \<Rightarrow> plain_color s) (slides (gdom ?g4) me)"
      by simp
    from color_sync_ok [OF on this, of ?m ?t]
    obtain g5 where c5: "color_sync lib me ?m ?t ?g4 = (g5, Returned ())"
      and f5: "querySelector (gdom g5) = querySelector (gdom ?g4)" "slides (gdom g5) = slides (gdom ?g4)"
              "mounted g5 = mounted ?g4" "constructed g5 = constructed ?g4"
      by blast
    have "initOneGallery lib mainSel thumbsSel colorSync g
          = (g5, Returned \<lparr>pair_main = Some ?m, pair_thumbs = Some ?t\<rparr>)"
      using True here c1 c2 c5 by (simp add: initOneGallery_def Let_def)
    with f4 f5 show ?thesis by simp
  qed
qed

lemma mount_group_ok:
  assumes new: "\<And>h sel cfg. \<not> throws lib h (New sel cfg)"
      and on: "\<And>h i ev. \<not> throws lib h (On i ev)"
      and plain: "c \<longrightarrow> plain_slides (gdom g) m"
  shows "\<exists>g1. mount_group lib (g, None) (t, m, c) = (g1, None) \<and>
              querySelector (gdom g1) = querySelector (gdom g) \<and>
              slides (gdom g1) = slides (gdom g) \<and>
              mounted g1 = mounted g @ expected_pairs (present (gdom g)) (constructed g) [(t, m, c)] \<and>
              constructed g1 = constructed g + (if present (gdom g) t \<and> present (gdom g) m then 2 else 0)"
proof (cases "present (gdom g) t \<and> present (gdom g) m")
  case False
  then show ?thesis by (auto simp: mount_group_def)
next
  case True
  then obtain me te where here: "querySelector (gdom g) m = Some me" "querySelector (gdom g) t = Some te"
    by (auto simp: present_def)
  have "c \<longrightarrow> list_all (\<lambda>c. case c of None \<Rightarrow> True | Some s \<Rightarrow> plain_color s) (slides (gdom g) me)"
    using plain here by (simp add: plain_slides_def)
  from initOneGallery_ok [OF new on here this]
  obtain g1 where i: "initOneGallery lib m t c g
               = (g1, Returned \<lparr>pair_main = Some (constructed g + 1), pair_thumbs = Some (constructed g)\<rparr>)"
    and f: "querySelector (gdom g1) = querySelector (gdom g)" "slides (gdom g1) = slides (gdom g)"
           "mounted g1 = mounted g" "constructed g1 = constructed g + 2"
    by blast
  have "mount_group lib (g, None) (t, m, c)
        = (g1\<lparr>mounted := mounted g1 @ [\<lparr>pair_main = Some (constructed g + 1), pair_thumbs = Some (constructed g)\<rparr>]\<rparr>, None)"
    using True i by (simp add: mount_group_def)
  with True f show ?thesis by simp
qed

lemma mount_groups_ok:
  assumes new: "\<And>h sel cfg. \<not> throws lib h (New sel cfg)"
      and on: "\<And>h i ev. \<not> throws lib h (On i ev)"
  shows "list_all (\<lambda>(t, m, c). c \<longrightarrow> plain_slides (gdom g) m) grps \<Longrightarrow>
         snd (foldl (mount_group lib) (g, None) grps) = None \<and>
         mounted (fst (foldl (mount_group lib) (g, None) grps))
           = mounted g @ expected_pairs (present (gdom g)) (constructed g) grps"
proof (induction grps arbitrary: g)
  case Nil
  show ?case by simp
next
  case (Cons grp grps)
  obtain t m c where grp: "grp = (t, m, c)" by (cases grp) auto
  have p: "c \<longrightarrow> plain_slides (gdom g) m"
    using Cons.prems grp by simp
  from mount_group_ok [OF new on p, of t]
  obtain g1 where s: "mount_group lib (g, None) (t, m, c) = (g1, None)"
    and f: "querySelector (gdom g1) = querySelector (gdom g)" "slides (gdom g1) = slides (gdom g)"
           "mounted g1 = mounted g @ expected_pairs (present (gdom g)) (constructed g) [(t, m, c)]"
           "constructed g1 = constructed g + (if present (gdom g) t \<and> present (gdom g) m then 2 else 0)"
    by blast
  have pe: "present (gdom g1) = present (gdom g)"
    by (rule present_eq [OF f(1)])
  have "list_all (\<lambda>(t, m, c). c \<longrightarrow> plain_slides (gdom g1) m) grps"
    using Cons.prems by (simp add: plain_slides_eq [OF f(1) f(2)])
  then have "snd (foldl (mount_group lib) (g1, None) grps) = None \<and>
         mounted (fst (foldl (mount_group lib) (g1, None) grps))
           = mounted g1 @ expected_pairs (present (gdom g1)) (constructed g1) grps"
    by (rule Cons.IH)
  with s f(3,4) pe grp show ?case by simp
qed

lemma destroy_pair_frame:
  "gdom (destroy_pair lib g p) = gdom g \<and> constructed (destroy_pair lib g p) = constructed g"
  by (simp add: destroy_pair_def Let_def try_call_def call_def split: option.splits)

lemma destroy_all_frame:
  "gdom (foldl (destroy_pair lib) g ps) = gdom g \<and> constructed (foldl (destroy_pair lib) g ps) = constructed g"
  by (induction ps arbitrary: g) (simp_all add: destroy_pair_frame)

lemma length_expected_pairs:
  "length (expected_pairs pr n grps) = length (filter (\<lambda>(t, m, c). pr t \<and> pr m) grps)"
  by (induction pr n grps rule: expected_pairs.induct) simp_all

lemma fresh_expected_pairs:
  "p \<in> set (expected_pairs pr n grps) \<Longrightarrow>
     \<exists>i. n \<le> i \<and> pair_thumbs p = Some i \<and> pair_main p = Some (i + 1)"
proof (induction pr n grps rule: expected_pairs.induct)
  case (1 pr n)
  then show ?case by simp
next
  case (2 pr n t m c grps)
  show ?case
  proof (cases "pr t \<and> pr m")
    case False
    with 2 show ?thesis by simp
  next
    case True
    with 2 show ?thesis by (auto intro: le_trans [of n "n + 2"])
  qed
qed



text \<open>
  Whatever the library does, the teardown calls \<^verbatim>\<open>destroy\<close> on the main slider of every
  pair of the registry: an exception of one pair does not stop the next.
\<close>

lemma destroy_pair_grows: "set (calls g) \<subseteq> set (calls (destroy_pair lib g p))"
  by (auto simp: destroy_pair_def Let_def try_call_def call_def split: option.splits)

lemma destroy_pair_logs:
  "pair_main p = Some m \<Longrightarrow> Destroy m True True \<in> set (calls (destroy_pair lib g p))"
  by (auto simp: destroy_pair_def Let_def try_call_def call_def split: option.splits)

lemma destroy_all_grows: "set (calls g) \<subseteq> set (calls (foldl (destroy_pair lib) g ps))"
proof (induction ps arbitrary: g)
  case Nil
  show ?case by simp
next
  case (Cons p ps)
  have "set (calls g) \<subseteq> set (calls (destroy_pair lib g p))"
    by (rule destroy_pair_grows)
  also have "\<dots> \<subseteq> set (calls (foldl (destroy_pair lib) (destroy_pair lib g p) ps))"
    by (rule Cons.IH)
  finally show ?case by simp
qed

lemma destroy_all_logs:
  "p \<in> set ps \<Longrightarrow> pair_main p = Some m \<Longrightarrow>
     Destroy m True True \<in> set (calls (foldl (destroy_pair lib) g ps))"
proof (induction ps arbitrary: g)
  case Nil
  then show ?case by simp
next
  case (Cons q ps)
  show ?case
  proof (cases "p = q")
    case True
    then have "Destroy m True True \<in> set (calls (destroy_pair lib g q))"
      using Cons.prems(2) by (simp add: destroy_pair_logs)
    then show ?thesis
      using destroy_all_grows [of "destroy_pair lib g q" lib ps] by auto
  next
    case False
    then have "p \<in> set ps" using Cons.prems(1) by simp
    then show ?thesis using Cons.IH Cons.prems(2) by simp
  qed
qed

lemma plain_selector_groups:
  "list_all (\<lambda>(t, m, c). c \<longrightarrow> plain_slides d m) selector_groups
   = plain_slides d ''.tf-product-media-main''"
  by (simp add: selector_groups_def)

text \<open>The concrete mounts, computed.\<close>

lemmas gallery_eval =
  mountAllGalleries_def destroyMounted_def destroy_pair_def mount_group_def selector_groups_def
  initOneGallery_def construct_def color_sync_def call_def try_call_def try_update_def resetToFirst_def
  updateBtn_def query_color_btn_def plain_color_def present_def attr_or_def Let_def gallery0_def
  gallery_quote_def dom_primary_def lib_ok_def lib_ctor_throws_def lib_on_throws_def
  lib_rest_throws_def

lemma mounted_once_eval:
  "mounted_once =
     \<lparr>gdom = dom_primary\<lparr>color_btns := [\<lparr>btn_color = Some ''red'', btn_active = True,
                                            btn_clicks = [(7, 1, 0)]\<rparr>],
                          value_currentColor := Some ''red''\<rparr>,
      mounted = [\<lparr>pair_main = Some 1, pair_thumbs = Some 0\<rparr>],
      calls = [New ''.thumbs-slider'' (ThumbsConfig ''vertical''),
               New ''.tf-product-media-main'' (MainConfig 0), Update 1, Update 0,
               SlideTo 1 0 0 False, SlideTo 0 0 0 False, On 1 ''slideChange''],
      constructed = 2, load_listeners = [(1, 0)], timeouts = [(1, 0)], reported = []\<rparr>"
  by (simp add: mounted_once_def gallery_eval)

lemma mounted_twice_eval:
  "mounted mounted_twice = [\<lparr>pair_main = Some 3, pair_thumbs = Some 2\<rparr>] \<and>
   calls mounted_twice =
     calls mounted_once @
     [Destroy 1 True True, Destroy 0 True True,
      New ''.thumbs-slider'' (ThumbsConfig ''vertical''),
      New ''.tf-product-media-main'' (MainConfig 2), Update 3, Update 2,
      SlideTo 3 0 0 False, SlideTo 2 0 0 False, On 3 ''slideChange''] \<and>
   map btn_clicks (color_btns (gdom mounted_twice)) = [[(7, 1, 0), (7, 3, 2)]] \<and>
   load_listeners mounted_twice = [(1, 0), (3, 2)]"
  unfolding mounted_twice_def mounted_once_eval
  by (simp add: mountAllGalleries_def destroyMounted_def destroy_pair_def mount_group_def selector_groups_def
  initOneGallery_def construct_def color_sync_def call_def try_call_def try_update_def resetToFirst_def
  updateBtn_def query_color_btn_def plain_color_def present_def attr_or_def Let_def dom_primary_def
  lib_ok_def)

text \<open>
  C7, as amended. Let the constructor and the \<^verbatim>\<open>on\<close> registration of the library return,
  and let the \<^verbatim>\<open>data-color\<close> values of the slides of the primary gallery be plain words.
  Then whatever the library's \<^verbatim>\<open>update\<close>, \<^verbatim>\<open>slideTo\<close> and \<^verbatim>\<open>destroy\<close> calls do, throwing
  included, a mount completes without an exception reaching its caller, and it leaves
  in the registry one pair of new sliders per selector group whose two elements are
  present. The teardown completes whatever the library does: it empties the registry
  after calling \<^verbatim>\<open>destroy\<close> on the main slider of every pair it held.
\<close>

theorem mount_swallows:
  assumes "\<And>h sel cfg. \<not> throws lib h (New sel cfg)"
      and "\<And>h i ev. \<not> throws lib h (On i ev)"
      and "plain_slides (gdom g) ''.tf-product-media-main''"
  shows "snd (mountAllGalleries lib g) = None \<and>
         mounted (fst (mountAllGalleries lib g))
           = expected_pairs (present (gdom g)) (constructed g) selector_groups \<and>
         mounted (destroyMounted lib' g) = [] \<and>
         (\<forall>p\<in>set (mounted g). \<forall>m. pair_main p = Some m \<longrightarrow>
            Destroy m True True \<in> set (calls (destroyMounted lib' g)))"
proof -
  let ?g0 = "destroyMounted lib g"
  have f: "gdom ?g0 = gdom g" "constructed ?g0 = constructed g" "mounted ?g0 = []"
    by (simp_all add: destroyMounted_def destroy_all_frame)
  have "list_all (\<lambda>(t, m, c). c \<longrightarrow> plain_slides (gdom ?g0) m) selector_groups"
    using assms(3) by (simp add: plain_selector_groups f)
  from mount_groups_ok [OF assms(1,2) this]
  have m: "snd (mountAllGalleries lib g) = None"
          "mounted (fst (mountAllGalleries lib g))
           = expected_pairs (present (gdom g)) (constructed g) selector_groups"
    by (simp_all add: mountAllGalleries_def f)
  have d: "Destroy m True True \<in> set (calls (destroyMounted lib' g))"
    if "p \<in> set (mounted g)" "pair_main p = Some m" for p m
    using destroy_all_logs [OF that, of lib' g] by (simp add: destroyMounted_def)
  from m d show ?thesis
    by (simp add: destroyMounted_def)
qed

text \<open>
  With a library whose \<^verbatim>\<open>update\<close>, \<^verbatim>\<open>slideTo\<close> and \<^verbatim>\<open>destroy\<close> always throw: the first mount
  and a second one complete and register their pair, and the teardown of the first
  pair calls \<^verbatim>\<open>destroy\<close> on its main slider.
\<close>

theorem mount_swallows_witness:
  "throws lib_rest_throws [] (Update 1) \<and>
   throws lib_rest_throws [] (SlideTo 1 0 0 False) \<and>
   throws lib_rest_throws [] (Destroy 1 True True) \<and>
   plain_slides (gdom gallery0) ''.tf-product-media-main'' \<and>
   snd (mountAllGalleries lib_rest_throws gallery0) = None \<and>
   mounted (fst (mountAllGalleries lib_rest_throws gallery0))
     = [\<lparr>pair_main = Some 1, pair_thumbs = Some 0\<rparr>] \<and>
   snd (mountAllGalleries lib_rest_throws (fst (mountAllGalleries lib_rest_throws gallery0))) = None \<and>
   mounted (destroyMounted lib_rest_throws (fst (mountAllGalleries lib_rest_throws gallery0))) = [] \<and>
   Destroy 1 True True
     \<in> set (calls (destroyMounted lib_rest_throws (fst (mountAllGalleries lib_rest_throws gallery0))))"
proof -
  let ?g1 = "fst (mountAllGalleries lib_rest_throws gallery0)"
  have n: "\<not> throws lib_rest_throws h (New sel cfg)" for h sel cfg
    by (simp add: lib_rest_throws_def)
  have o: "\<not> throws lib_rest_throws h (On i ev)" for h i ev
    by (simp add: lib_rest_throws_def)
  have t: "throws lib_rest_throws [] (Update 1)" "throws lib_rest_throws [] (SlideTo 1 0 0 False)"
          "throws lib_rest_throws [] (Destroy 1 True True)"
    by (simp_all add: lib_rest_throws_def)
  have p0: "plain_slides (gdom gallery0) ''.tf-product-media-main''"
    by (simp add: plain_slides_def gallery0_def dom_primary_def plain_color_def)
  have e0: "expected_pairs (present (gdom gallery0)) (constructed gallery0) selector_groups
            = [\<lparr>pair_main = Some 1, pair_thumbs = Some 0\<rparr>]"
    by (simp add: selector_groups_def present_def gallery0_def dom_primary_def)
  note a = mount_swallows [OF n o p0, of lib_rest_throws]
  from a e0 have m1: "mounted ?g1 = [\<lparr>pair_main = Some 1, pair_thumbs = Some 0\<rparr>]"
    by simp
  from a have s1: "snd (mountAllGalleries lib_rest_throws gallery0) = None"
    by blast
  have p1: "plain_slides (gdom ?g1) ''.tf-product-media-main''"
    by (simp add: plain_slides_def gallery_eval)
  note b = mount_swallows [OF n o p1, of lib_rest_throws]
  from b have s2: "snd (mountAllGalleries lib_rest_throws ?g1) = None"
    by blast
  from b have e2: "mounted (destroyMounted lib_rest_throws ?g1) = []"
    by blast
  from b have "\<forall>p\<in>set (mounted ?g1). \<forall>m. pair_main p = Some m \<longrightarrow>
            Destroy m True True \<in> set (calls (destroyMounted lib_rest_throws ?g1))"
    by blast
  then have d2: "Destroy 1 True True \<in> set (calls (destroyMounted lib_rest_throws ?g1))"
    by (simp add: m1)
  from t p0 s1 m1 s2 e2 d2 show ?thesis
    by blast
qed

text \<open>
  C7 as stated fails in three ways. The two \<^verbatim>\<open>new Swiper\<close> of lines 37 and 53 and the
  \<^verbatim>\<open>main.on\<close> of line 81 are outside every \<^verbatim>\<open>try\<close> block: with a constructor that throws, or
  with an \<^verbatim>\<open>on\<close> that throws, the first mount ends with the exception. And with a library
  that never throws, a slide whose colour holds a double quote makes the query of line
  75 throw a SyntaxError, which ends the mount as well.
\<close>

theorem mount_swallows_counterexample:
  "throws lib_ctor_throws [] (New ''.thumbs-slider'' (ThumbsConfig ''vertical'')) \<and>
   snd (mountAllGalleries lib_ctor_throws gallery0) = Some LibraryError \<and>
   throws lib_on_throws [] (On 1 ''slideChange'') \<and>
   \<not> throws lib_on_throws [] (New ''.thumbs-slider'' (ThumbsConfig ''vertical'')) \<and>
   snd (mountAllGalleries lib_on_throws gallery0) = Some LibraryError \<and>
   \<not> plain_slides (gdom gallery_quote) ''.tf-product-media-main'' \<and>
   snd (mountAllGalleries lib_ok gallery_quote) = Some SyntaxError"
proof -
  have a: "snd (mountAllGalleries lib_ctor_throws gallery0) = Some LibraryError"
    by (simp add: gallery_eval)
  have b: "snd (mountAllGalleries lib_on_throws gallery0) = Some LibraryError"
    by (simp add: gallery_eval)
  have c: "snd (mountAllGalleries lib_ok gallery_quote) = Some SyntaxError"
    by (simp add: gallery_eval)
  have d: "\<not> plain_slides (gdom gallery_quote) ''.tf-product-media-main''"
    by (simp add: plain_slides_def gallery_quote_def gallery0_def dom_primary_def plain_color_def)
  from a b c d show ?thesis
    by (simp add: lib_ctor_throws_def lib_on_throws_def)
qed

subsection \<open>The registry\<close>


text \<open>
  With a constructor and an \<^verbatim>\<open>on\<close> registration that return and plain colours,
  whatever the registry held before, a mount leaves in it exactly one pair per selector
  group whose two elements are present, each made of two sliders constructed during
  this mount.
\<close>

lemma registry_after_mount:
  assumes "\<And>h sel cfg. \<not> throws lib h (New sel cfg)"
      and "\<And>h i ev. \<not> throws lib h (On i ev)"
      and "plain_slides (gdom g) ''.tf-product-media-main''"
  shows "mounted (fst (mountAllGalleries lib g))
           = expected_pairs (present (gdom g)) (constructed g) selector_groups \<and>
         length (mounted (fst (mountAllGalleries lib g)))
           = length (filter (\<lambda>(t, m, c). present (gdom g) t \<and> present (gdom g) m) selector_groups) \<and>
         (\<forall>p\<in>set (mounted (fst (mountAllGalleries lib g))).
            \<exists>i. constructed g \<le> i \<and> pair_thumbs p = Some i \<and> pair_main p = Some (i + 1))"
proof -
  let ?g0 = "destroyMounted lib g"
  have f: "gdom ?g0 = gdom g" "constructed ?g0 = constructed g" "mounted ?g0 = []"
    by (simp_all add: destroyMounted_def destroy_all_frame)
  have "list_all (\<lambda>(t, m, c). c \<longrightarrow> plain_slides (gdom ?g0) m) selector_groups"
    using assms(3) by (simp add: plain_selector_groups f)
  from mount_groups_ok [OF assms(1,2) this]
  have m: "mounted (fst (mountAllGalleries lib g))
           = expected_pairs (present (gdom g)) (constructed g) selector_groups"
    by (simp add: mountAllGalleries_def f)
  show ?thesis
    unfolding m using fresh_expected_pairs [of _ "present (gdom g)" "constructed g" selector_groups]
    by (simp add: length_expected_pairs)
qed

text \<open>
  With a \<^verbatim>\<open>destroy\<close> that returns, the teardown calls \<^verbatim>\<open>destroy\<close> on every slider of the
  registry, in order, and empties the registry; the rest of the mount makes no
  \<^verbatim>\<open>destroy\<close> call: every old pair is destroyed before a new one is constructed.
\<close>

lemma destroy_pair_calls:
  assumes "\<And>h i a b. \<not> throws lib h (Destroy i a b)"
  shows "calls (destroy_pair lib g p) = calls g @ destroy_calls p"
  using assms
  by (simp add: destroy_pair_def destroy_calls_def Let_def try_call_def call_def split: option.splits)

lemma destroy_all_calls:
  assumes "\<And>h i a b. \<not> throws lib h (Destroy i a b)"
  shows "calls (foldl (destroy_pair lib) g ps) = calls g @ concat (map destroy_calls ps)"
  by (induction ps arbitrary: g) (simp_all add: destroy_pair_calls [OF assms])

lemma nds_iff: "no_destroy_since g g' \<longleftrightarrow> (\<exists>cs. calls g' = calls g @ cs \<and> list_all (\<lambda>c. \<not> is_Destroy c) cs)"
proof
  assume a: "no_destroy_since g g'"
  then have "calls g' = calls g @ drop (length (calls g)) (calls g')"
    by (metis append_take_drop_id no_destroy_since_def)
  with a show "\<exists>cs. calls g' = calls g @ cs \<and> list_all (\<lambda>c. \<not> is_Destroy c) cs"
    unfolding no_destroy_since_def by blast
next
  assume "\<exists>cs. calls g' = calls g @ cs \<and> list_all (\<lambda>c. \<not> is_Destroy c) cs"
  then show "no_destroy_since g g'"
    by (auto simp: no_destroy_since_def)
qed

lemma nds_refl: "no_destroy_since g g"
  by (simp add: nds_iff)

lemma nds_trans: "no_destroy_since g h \<Longrightarrow> no_destroy_since h k \<Longrightarrow> no_destroy_since g k"
  by (auto simp: nds_iff)

lemma nds_calls_eq: "calls h = calls g \<Longrightarrow> no_destroy_since g h"
  by (simp add: nds_iff)

lemma nds_call: "\<not> is_Destroy c \<Longrightarrow> no_destroy_since g (fst (call lib c g))"
  by (simp add: nds_iff call_def)

lemma nds_try_call:
  "\<not> is_Destroy c \<Longrightarrow> no_destroy_since g (fst r) \<Longrightarrow> no_destroy_since g (fst (try_call lib c r))"
  by (auto simp: try_call_def intro: nds_trans nds_call)

lemma nds_try_update:
  "no_destroy_since g (fst r) \<Longrightarrow> no_destroy_since g (fst (try_update lib i r))"
  using nds_call [of "Update i" "fst r" lib] by (auto simp: try_update_def intro: nds_trans)

lemma nds_resetToFirst: "no_destroy_since g (resetToFirst lib a b g)"
  by (cases a; cases b)
     (simp_all add: resetToFirst_def Let_def nds_refl nds_try_call nds_try_update)

lemma nds_construct: "no_destroy_since g (fst (construct lib sel cfg g))"
  by (auto simp: construct_def nds_iff call_def split: prod.splits bool.splits)

lemma nds_color_sync: "no_destroy_since g (fst (color_sync lib el m t g))"
  by (auto simp: color_sync_def nds_iff call_def Let_def
           split: prod.splits bool.splits completion.splits)

lemma nds_initOneGallery: "no_destroy_since g (fst (initOneGallery lib mainSel thumbsSel colorSync g))"
proof (cases "querySelector (gdom g) mainSel")
  case None
  then show ?thesis by (simp add: initOneGallery_def nds_refl)
next
  case (Some me)
  show ?thesis
  proof (cases "querySelector (gdom g) thumbsSel")
    case None
    with Some show ?thesis by (simp add: initOneGallery_def nds_refl)
  next
    case T: (Some te)
    obtain g1 x1 where c1: "construct lib thumbsSel
        (ThumbsConfig (attr_or (data_direction (gdom g) te) ''vertical'')) g = (g1, x1)"
      by (cases "construct lib thumbsSel
        (ThumbsConfig (attr_or (data_direction (gdom g) te) ''vertical'')) g") auto
    have n1: "no_destroy_since g g1"
      using nds_construct [of g lib thumbsSel
        "ThumbsConfig (attr_or (data_direction (gdom g) te) ''vertical'')"] c1 by simp
    show ?thesis
    proof (cases x1)
      case (Threw err)
      with Some T c1 n1 show ?thesis
        by (simp add: initOneGallery_def)
    next
      case (Returned t)
      obtain g2 x2 where c2: "construct lib mainSel (MainConfig t) g1 = (g2, x2)"
        by (cases "construct lib mainSel (MainConfig t) g1") auto
      have "no_destroy_since g1 g2"
        using nds_construct [of g1 lib mainSel "MainConfig t"] c2 by simp
      with n1 have n2: "no_destroy_since g g2" by (rule nds_trans)
      show ?thesis
      proof (cases x2)
        case (Threw err)
        with Some T c1 Returned c2 n2 show ?thesis
          by (simp add: initOneGallery_def)
      next
        case R2: (Returned m)
        let ?g3 = "resetToFirst lib (Some m) (Some t) g2"
        let ?g4 = "?g3\<lparr>load_listeners := load_listeners ?g3 @ [(m, t)], timeouts := timeouts ?g3 @ [(m, t)]\<rparr>"
        have n3: "no_destroy_since g ?g3"
          using n2 nds_resetToFirst by (rule nds_trans)
        have n4: "no_destroy_since g ?g4"
          using n3 by (rule nds_trans) (simp add: nds_calls_eq)
        obtain g5 x5 where c5: "color_sync lib me m t ?g4 = (g5, x5)"
          by (cases "color_sync lib me m t ?g4") auto
        have "no_destroy_since ?g4 g5"
          using nds_color_sync [of ?g4 lib me m t] c5 by simp
        with n4 have n5: "no_destroy_since g g5" by (rule nds_trans)
        show ?thesis
        proof (cases colorSync)
          case False
          with Some T c1 Returned c2 R2 n4 show ?thesis
            by (simp add: initOneGallery_def Let_def)
        next
          case True
          with Some T c1 Returned c2 R2 c5 n5 show ?thesis
            by (cases x5) (simp_all add: initOneGallery_def Let_def)
        qed
      qed
    qed
  qed
qed

lemma nds_mount_group: "no_destroy_since (fst r) (fst (mount_group lib r grp))"
proof (cases r)
  case (Pair g e)
  obtain t m c where grp: "grp = (t, m, c)" by (cases grp) auto
  show ?thesis
  proof (cases e)
    case (Some err)
    with Pair show ?thesis by (simp add: mount_group_def nds_refl)
  next
    case None
    obtain g1 x where i: "initOneGallery lib m t c g = (g1, x)"
      by (cases "initOneGallery lib m t c g") auto
    have n1: "no_destroy_since g g1"
      using nds_initOneGallery [of g lib m t c] i by simp
    have n2: "no_destroy_since g (g1\<lparr>mounted := ms\<rparr>)" for ms
      using n1 by (rule nds_trans) (simp add: nds_calls_eq)
    from Pair None grp i n1 n2 show ?thesis
      by (cases x) (simp_all add: mount_group_def nds_refl)
  qed
qed

lemma nds_mount_groups: "no_destroy_since (fst r) (fst (foldl (mount_group lib) r grps))"
proof (induction grps arbitrary: r)
  case Nil
  show ?case by (simp add: nds_refl)
next
  case (Cons grp grps)
  have "no_destroy_since (fst r) (fst (mount_group lib r grp))" by (rule nds_mount_group)
  moreover have "no_destroy_since (fst (mount_group lib r grp))
                   (fst (foldl (mount_group lib) (mount_group lib r grp) grps))"
    by (rule Cons.IH)
  ultimately show ?case by (simp add: nds_trans)
qed

lemma teardown_before_construct:
  assumes "\<And>h i a b. \<not> throws lib h (Destroy i a b)"
  shows "calls (destroyMounted lib g) = calls g @ concat (map destroy_calls (mounted g)) \<and>
         mounted (destroyMounted lib g) = [] \<and>
         no_destroy_since (destroyMounted lib g) (fst (mountAllGalleries lib g))"
proof -
  have "calls (destroyMounted lib g) = calls g @ concat (map destroy_calls (mounted g))"
    by (simp add: destroyMounted_def destroy_all_calls [OF assms])
  moreover have "no_destroy_since (destroyMounted lib g) (fst (mountAllGalleries lib g))"
    using nds_mount_groups [of "(destroyMounted lib g, None)" lib selector_groups]
    by (simp add: mountAllGalleries_def)
  ultimately show ?thesis
    by (simp add: destroyMounted_def)
qed

subsection \<open>A click on a colour button\<close>

text \<open>
  The \<^verbatim>\<open>slideTo\<close> calls of a click listener are not guarded: after a mount with the
  library whose \<^verbatim>\<open>slideTo\<close> throws, a click on the button calls \<^verbatim>\<open>slideTo\<close> on the main
  slider, the exception ends the listener before the thumbs slider is reached, and the
  error is reported.
\<close>

lemma color_click_reports:
  "calls (color_click lib_rest_throws 0 (fst (mountAllGalleries lib_rest_throws gallery0)))
     = calls (fst (mountAllGalleries lib_rest_throws gallery0)) @ [SlideTo 1 0 300 False] \<and>
   reported (color_click lib_rest_throws 0 (fst (mountAllGalleries lib_rest_throws gallery0)))
     = [LibraryError]"
  by (simp add: gallery_eval color_click_def color_click_one_def)

subsection \<open>Mounting twice\<close>

text \<open>
  C4 at a concrete document (the primary gallery and one colour button that stays in
  the document), mounted twice with a library that never throws. As the two lemmas
  above say in general, the registry holds the one new pair, and the old pair was
  destroyed before the new one was constructed. But the listeners do accumulate: the
  button now has two click listeners and the window two \<^verbatim>\<open>load\<close> listeners, one of each
  closing over the destroyed pair, and a click on the button calls \<^verbatim>\<open>slideTo\<close> on the
  destroyed sliders 1 and 0 as well.
\<close>

theorem remount_accumulates_listeners:
  "mounted mounted_twice = [\<lparr>pair_main = Some 3, pair_thumbs = Some 2\<rparr>] \<and>
   calls mounted_twice =
     calls mounted_once @
     [Destroy 1 True True, Destroy 0 True True,
      New ''.thumbs-slider'' (ThumbsConfig ''vertical''),
      New ''.tf-product-media-main'' (MainConfig 2), Update 3, Update 2,
      SlideTo 3 0 0 False, SlideTo 2 0 0 False, On 3 ''slideChange''] \<and>
   map btn_clicks (color_btns (gdom mounted_twice)) = [[(7, 1, 0), (7, 3, 2)]] \<and>
   load_listeners mounted_twice = [(1, 0), (3, 2)] \<and>
   calls (color_click lib_ok 0 mounted_twice) =
     calls mounted_twice @
     [SlideTo 1 0 300 False, SlideTo 0 0 300 False, SlideTo 3 0 300 False, SlideTo 2 0 300 False]"
proof -
  have "calls (color_click lib_ok 0 mounted_twice) =
     calls mounted_twice @
     [SlideTo 1 0 300 False, SlideTo 0 0 300 False, SlideTo 3 0 300 False, SlideTo 2 0 300 False]"
    unfolding mounted_twice_def mounted_once_eval
    by (simp add: gallery_eval color_click_def color_click_one_def)
  with mounted_twice_eval show ?thesis by blast
qed

end
